theory Spec2Isabelle
  imports Complex_Main "HOL-Library.Char_ord" "HOL-Library.List_Lexorder"
begin

section \<open>Python values, exceptions and dictionaries\<close>

text \<open>
  The feature values the two modules handle are Python \<open>str\<close>, \<open>int\<close> and \<open>float\<close>
  objects. Integers are unbounded. A \<open>float\<close> is a binary double: a finite value, which
  is a rational number, an infinity or not-a-number. Which rational a float operation
  returns is decided by the interpreter's floating point, not by this repository: the
  operations on floats are parameters (\<open>float_ops\<close> below), so that no theorem here
  depends on how a quotient or \<open>round\<close> is rounded to a double.
  Strings are lists of 8-bit characters, ordered by character code as Python orders
  \<open>str\<close> by code point.
\<close>

datatype pyfloat = Finite rat | PosInf | NegInf | NaN

datatype pyval = VStr string | VInt int | VFloat pyfloat

text \<open>
  Exceptions. \<open>ValueError\<close> carries the message the source gives it; \<open>LibError\<close> is any
  exception raised inside an external library (PIL, pytesseract, OpenCV, \<open>os\<close>, openpyxl),
  with \<open>str(e)\<close> as its argument; the others are raised by the interpreter in the code
  of the repository.
\<close>

datatype py_error =
    ValueError string
  | ZeroDivisionError
  | OverflowError
  | TypeError
  | AttributeError
  | LibError string

text \<open>Sequencing of calls that may raise, and a call of an external primitive.\<close>

definition bind_err :: "py_error + 'a \<Rightarrow> ('a \<Rightarrow> py_error + 'b) \<Rightarrow> py_error + 'b" where
  "bind_err r k = (case r of Inl e \<Rightarrow> Inl e | Inr x \<Rightarrow> k x)"

definition lib_call :: "string + 'a \<Rightarrow> py_error + 'a" where
  "lib_call r = (case r of Inl m \<Rightarrow> Inl (LibError m) | Inr x \<Rightarrow> Inr x)"

text \<open>
  A \<open>dict\<close> keeps its keys in insertion order, which \<open>export_single_image\<close> depends on:
  it is an association list. \<open>d[k] = v\<close> overwrites in place or appends.
\<close>

type_synonym pydict = "(string \<times> pyval) list"

definition dict_keys :: "pydict \<Rightarrow> string list" where
  "dict_keys d = map fst d"

definition dict_items :: "pydict \<Rightarrow> (string \<times> pyval) list" where
  "dict_items d = d"

definition dict_get :: "pydict \<Rightarrow> string \<Rightarrow> pyval \<Rightarrow> pyval" where
  "dict_get d k dflt = (case map_of d k of None \<Rightarrow> dflt | Some v \<Rightarrow> v)"

fun dict_set :: "pydict \<Rightarrow> string \<Rightarrow> pyval \<Rightarrow> pydict" where
  "dict_set [] k v = [(k, v)]"
| "dict_set ((k', v') # d) k v =
     (if k' = k then (k, v) # d else (k', v') # dict_set d k v)"

definition dict_update :: "pydict \<Rightarrow> pydict \<Rightarrow> pydict" where
  "dict_update d other = fold (\<lambda>(k, v) acc. dict_set acc k v) (dict_items other) d"

definition wf_dict :: "pydict \<Rightarrow> bool" where
  "wf_dict d = distinct (dict_keys d)"

subsection \<open>Arithmetic\<close>

text \<open>
  The float operations of the interpreter, as parameters:
  \<^item> \<open>float_of_int i\<close>: the conversion of an \<open>int\<close> operand of a mixed operation, \<open>None\<close>
    when it raises \<open>OverflowError\<close> (int too large to convert to float);
  \<^item> \<open>float_add x y\<close>: \<open>x + y\<close> of two floats;
  \<^item> \<open>int_truediv a b\<close>: \<open>a / b\<close> of two ints with \<open>b\<close> other than 0, \<open>None\<close> when it raises
    \<open>OverflowError\<close> (integer division result too large for a float);
  \<^item> \<open>float_truediv x y\<close>: \<open>x / y\<close> of two floats with \<open>y\<close> other than 0;
  \<^item> \<open>float_round x n\<close>: \<open>round(x, n)\<close> of a float.
\<close>

record float_ops =
  float_of_int :: "int \<Rightarrow> pyfloat option"
  float_add :: "pyfloat \<Rightarrow> pyfloat \<Rightarrow> pyfloat"
  int_truediv :: "int \<Rightarrow> int \<Rightarrow> pyfloat option"
  float_truediv :: "pyfloat \<Rightarrow> pyfloat \<Rightarrow> pyfloat"
  float_round :: "pyfloat \<Rightarrow> nat \<Rightarrow> pyfloat"

text \<open>
  \<open>a + b\<close>, \<open>sum(xs)\<close> (which starts from the integer 0), \<open>x / n\<close> for an \<open>int\<close> \<open>n\<close> and
  \<open>round(x, 2)\<close>, by the types of the operands. Two ints are added exactly; an int
  meeting a float is converted first. \<open>round\<close> of an int with a positive number of
  digits is the int.
\<close>

fun py_add :: "float_ops \<Rightarrow> pyval \<Rightarrow> pyval \<Rightarrow> py_error + pyval" where
  "py_add fo (VInt a) (VInt b) = Inr (VInt (a + b))"
| "py_add fo (VInt a) (VFloat y) =
     (case float_of_int fo a of
        None \<Rightarrow> Inl OverflowError
      | Some x \<Rightarrow> Inr (VFloat (float_add fo x y)))"
| "py_add fo (VFloat x) (VInt b) =
     (case float_of_int fo b of
        None \<Rightarrow> Inl OverflowError
      | Some y \<Rightarrow> Inr (VFloat (float_add fo x y)))"
| "py_add fo (VFloat x) (VFloat y) = Inr (VFloat (float_add fo x y))"
| "py_add fo (VStr a) (VStr b) = Inr (VStr (a @ b))"
| "py_add fo _ _ = Inl TypeError"

fun py_sum_from :: "float_ops \<Rightarrow> pyval \<Rightarrow> pyval list \<Rightarrow> py_error + pyval" where
  "py_sum_from fo acc [] = Inr acc"
| "py_sum_from fo acc (v # vs) =
     (case py_add fo acc v of Inl e \<Rightarrow> Inl e | Inr acc' \<Rightarrow> py_sum_from fo acc' vs)"

definition py_sum :: "float_ops \<Rightarrow> pyval list \<Rightarrow> py_error + pyval" where
  "py_sum fo vs = py_sum_from fo (VInt 0) vs"

fun py_truediv :: "float_ops \<Rightarrow> pyval \<Rightarrow> int \<Rightarrow> py_error + pyval" where
  "py_truediv fo (VStr s) n = Inl TypeError"
| "py_truediv fo (VInt a) n =
     (if n = 0 then Inl ZeroDivisionError
      else case int_truediv fo a n of
             None \<Rightarrow> Inl OverflowError
           | Some q \<Rightarrow> Inr (VFloat q))"
| "py_truediv fo (VFloat x) n =
     (case float_of_int fo n of
        None \<Rightarrow> Inl OverflowError
      | Some y \<Rightarrow>
          if n = 0 then Inl ZeroDivisionError else Inr (VFloat (float_truediv fo x y)))"

fun py_round_val :: "float_ops \<Rightarrow> pyval \<Rightarrow> nat \<Rightarrow> py_error + pyval" where
  "py_round_val fo (VStr s) nd = Inl TypeError"
| "py_round_val fo (VInt a) nd = Inr (VInt a)"
| "py_round_val fo (VFloat x) nd = Inr (VFloat (float_round fo x nd))"

section \<open>The object store\<close>

text \<open>
  Python passes references. The caller's record dictionaries and the list holding them,
  the openpyxl workbook and its worksheets are objects of one heap, addressed by their
  index; allocation appends.

  A worksheet is its title, its cells and whether the two cosmetic passes have run (fill,
  font, alignment and column widths themselves are not represented). The exporter fills
  a sheet by \<open>append\<close> only, so the cells are kept as \<open>rows\<close>: the values of the rows
  appended so far, row \<open>r\<close> of the sheet at index \<open>r - 1\<close>. An appended row without
  values takes a row number and holds no cell. \<open>pending\<close> are the cells an \<open>append\<close> that
  raised left behind in the row after the last one: \<open>append\<close> creates the cells of a row
  one by one and moves on to the next row only when all were created.
  A workbook is the list of its sheets, in order; its active sheet is the first one.
\<close>

type_synonym addr = nat

record worksheet =
  title :: string
  rows :: "pyval list list"
  pending :: "pyval list"
  header_styled :: bool
  widths_adjusted :: bool

text \<open>The cell in row \<open>r\<close> and column \<open>c\<close> of a sheet, both counted from 1.\<close>

definition cell_at :: "worksheet \<Rightarrow> nat \<Rightarrow> nat \<Rightarrow> pyval option" where
  "cell_at ws r c =
     (if 1 \<le> r \<and> r \<le> length (rows ws) then
        (if 1 \<le> c \<and> c \<le> length (rows ws ! (r - 1))
         then Some (rows ws ! (r - 1) ! (c - 1)) else None)
      else if r = Suc (length (rows ws)) \<and> 1 \<le> c \<and> c \<le> length (pending ws)
      then Some (pending ws ! (c - 1)) else None)"

datatype obj =
    ODict pydict
  | OList "addr list"
  | OSheet worksheet
  | OBook "addr list"

text \<open>
  What is found at a path after \<open>save\<close>: the sheets of the workbook as they were at the
  call, or the beginning of a file that \<open>save\<close> did not finish.
\<close>

datatype file_content = Workbook_file "worksheet list" | Partial_file

text \<open>
  The program state: the heap, the two attributes of the \<open>ExcelExporter\<close> instance
  (\<open>None\<close> after \<open>__init__\<close>), the files written so far and the lines printed.
\<close>

record pystate =
  heap :: "obj list"
  self_workbook :: "addr option"
  self_worksheet :: "addr option"
  files :: "string \<Rightarrow> file_content option"
  stdout :: "string list"

datatype 'a outcome = Returned 'a pystate | Raised py_error pystate

definition and_then :: "'a outcome \<Rightarrow> ('a \<Rightarrow> pystate \<Rightarrow> 'b outcome) \<Rightarrow> 'b outcome" where
  "and_then r k = (case r of Returned x st \<Rightarrow> k x st | Raised e st \<Rightarrow> Raised e st)"

definition heap_get :: "obj list \<Rightarrow> addr \<Rightarrow> obj option" where
  "heap_get h a = (if a < length h then Some (h ! a) else None)"

definition list_items :: "obj list \<Rightarrow> addr \<Rightarrow> addr list option" where
  "list_items h a = (case heap_get h a of Some (OList refs) \<Rightarrow> Some refs | _ \<Rightarrow> None)"

definition dict_at :: "obj list \<Rightarrow> addr \<Rightarrow> pydict option" where
  "dict_at h a = (case heap_get h a of Some (ODict d) \<Rightarrow> Some d | _ \<Rightarrow> None)"

definition sheet_at :: "obj list \<Rightarrow> addr \<Rightarrow> worksheet option" where
  "sheet_at h a = (case heap_get h a of Some (OSheet ws) \<Rightarrow> Some ws | _ \<Rightarrow> None)"

text \<open>
  What a reference of type \<open>List[Dict[str, Any]]\<close> denotes: the dictionaries of the list,
  in order. A reference that denotes no such list is outside the annotated parameter type;
  the operations below answer \<open>TypeError\<close> or \<open>AttributeError\<close> there.
\<close>

definition read_records :: "obj list \<Rightarrow> addr \<Rightarrow> pydict list option" where
  "read_records h a =
     (case list_items h a of None \<Rightarrow> None | Some refs \<Rightarrow> those (map (dict_at h) refs))"

subsection \<open>openpyxl: workbooks and worksheets\<close>

text \<open>
  openpyxl is not part of the repository. What it does with the text of a cell and
  whether it can write a workbook to a path are parameters:
  \<^item> \<open>check_string s\<close>: the check every \<open>str\<close> given to a cell goes through; \<open>Inr t\<close> is the
    text the cell keeps (openpyxl cuts a text at 32767 characters), \<open>Inl m\<close> is an
    exception \<open>e\<close> with \<open>str(e) = m\<close> (openpyxl raises \<open>IllegalCharacterError\<close> for a text
    with a control character);
  \<^item> \<open>save_error path sheets\<close>: \<open>None\<close> when \<open>save\<close> writes the sheets to the path;
    \<open>Some (m, partial)\<close> when it raises an exception \<open>e\<close> with \<open>str(e) = m\<close>, \<open>partial\<close>
    telling whether an unfinished file is left at the path (openpyxl raises
    \<open>OverflowError\<close> on an \<open>int\<close> cell beyond the range of a float, after it began to
    write).
  An \<open>int\<close> or a \<open>float\<close> given to a cell is kept as it is.
\<close>

record xl_ops =
  check_string :: "string \<Rightarrow> string + string"
  save_error :: "string \<Rightarrow> worksheet list \<Rightarrow> (string \<times> bool) option"

definition cell_value :: "xl_ops \<Rightarrow> pyval \<Rightarrow> string + pyval" where
  "cell_value xl v =
     (case v of
        VStr s \<Rightarrow> (case check_string xl s of Inl m \<Rightarrow> Inl m | Inr t \<Rightarrow> Inr (VStr t))
      | _ \<Rightarrow> Inr v)"

text \<open>
  The cells \<open>append\<close> creates for the values of a row, from left to right: all of them, or
  the message of the first value refused together with the cells created before it.
\<close>

fun store_cells :: "xl_ops \<Rightarrow> pyval list \<Rightarrow> (string \<times> pyval list) + pyval list" where
  "store_cells xl [] = Inr []"
| "store_cells xl (v # vs) =
     (case cell_value xl v of
        Inl m \<Rightarrow> Inl (m, [])
      | Inr c \<Rightarrow>
          (case store_cells xl vs of
             Inl (m, cs) \<Rightarrow> Inl (m, c # cs)
           | Inr cs \<Rightarrow> Inr (c # cs)))"

definition empty_sheet :: "string \<Rightarrow> worksheet" where
  "empty_sheet t =
     \<lparr>title = t, rows = [], pending = [], header_styled = False, widths_adjusted = False\<rparr>"

text \<open>\<open>Workbook()\<close>: a new workbook holding one empty sheet titled "Sheet".\<close>

definition Workbook :: "pystate \<Rightarrow> addr outcome" where
  "Workbook st =
     (let b = length (heap st)
      in Returned b (st\<lparr>heap := heap st @ [OBook [Suc b], OSheet (empty_sheet ''Sheet'')]\<rparr>))"

text \<open>\<open>wb.active\<close>: the sheet at the active index, which stays 0; \<open>None\<close> without sheets.\<close>

definition workbook_active :: "addr option \<Rightarrow> pystate \<Rightarrow> (addr option) outcome" where
  "workbook_active wb st =
     (case wb of
        None \<Rightarrow> Raised AttributeError st
      | Some b \<Rightarrow>
          (case heap_get (heap st) b of
             Some (OBook ss) \<Rightarrow> Returned (case ss of [] \<Rightarrow> None | s # _ \<Rightarrow> Some s) st
           | _ \<Rightarrow> Raised AttributeError st))"

text \<open>An attribute assignment or method call on the sheet a variable refers to.\<close>

definition sheet_modify :: "addr option \<Rightarrow> (worksheet \<Rightarrow> worksheet) \<Rightarrow> pystate \<Rightarrow> unit outcome" where
  "sheet_modify ws f st =
     (case ws of
        None \<Rightarrow> Raised AttributeError st
      | Some a \<Rightarrow>
          (case sheet_at (heap st) a of
             None \<Rightarrow> Raised AttributeError st
           | Some s \<Rightarrow> Returned () (st\<lparr>heap := (heap st)[a := OSheet (f s)]\<rparr>)))"

definition set_title :: "addr option \<Rightarrow> string \<Rightarrow> pystate \<Rightarrow> unit outcome" where
  "set_title ws t st = sheet_modify ws (\<lambda>s. s\<lparr>title := t\<rparr>) st"

text \<open>
  \<open>ws.append(row)\<close>. The cells are created in the row after the last one. When a value is
  refused the exception leaves the method: the cells created so far stay where they are
  and the row is not counted. Otherwise the row is complete; a cell a failed \<open>append\<close>
  left beyond its last column is part of it.
\<close>

definition worksheet_append :: "xl_ops \<Rightarrow> addr option \<Rightarrow> pyval list \<Rightarrow> pystate \<Rightarrow> unit outcome" where
  "worksheet_append xl ws row st =
     (case ws of
        None \<Rightarrow> Raised AttributeError st
      | Some a \<Rightarrow>
          (case sheet_at (heap st) a of
             None \<Rightarrow> Raised AttributeError st
           | Some s \<Rightarrow>
               (case store_cells xl row of
                  Inl (m, cs) \<Rightarrow>
                    Raised (LibError m)
                      (st\<lparr>heap := (heap st)[a := OSheet
                             (s\<lparr>pending := cs @ drop (length cs) (pending s)\<rparr>)]\<rparr>)
                | Inr cs \<Rightarrow>
                    Returned ()
                      (st\<lparr>heap := (heap st)[a := OSheet
                             (s\<lparr>rows := rows s @ [cs @ drop (length cs) (pending s)],
                                pending := []\<rparr>)]\<rparr>))))"

text \<open>
  \<open>wb.create_sheet(title, index)\<close>: a new empty sheet inserted at \<open>index\<close>. The one call of
  the source passes a title no other sheet of the book has, so the title is kept as given.
\<close>

definition create_sheet :: "addr option \<Rightarrow> string \<Rightarrow> nat \<Rightarrow> pystate \<Rightarrow> (addr option) outcome" where
  "create_sheet wb t i st =
     (case wb of
        None \<Rightarrow> Raised AttributeError st
      | Some b \<Rightarrow>
          (case heap_get (heap st) b of
             Some (OBook ss) \<Rightarrow>
               (let s = length (heap st)
                in Returned (Some s)
                     (st\<lparr>heap := (heap st)[b := OBook (take i ss @ [s] @ drop i ss)]
                                    @ [OSheet (empty_sheet t)]\<rparr>))
           | _ \<Rightarrow> Raised AttributeError st))"

definition book_sheets :: "obj list \<Rightarrow> addr \<Rightarrow> worksheet list option" where
  "book_sheets h b =
     (case heap_get h b of Some (OBook ss) \<Rightarrow> those (map (sheet_at h) ss) | _ \<Rightarrow> None)"

text \<open>\<open>wb.save(path)\<close> writes the sheets of the book, as they are at the call, to the file.\<close>

definition workbook_save :: "xl_ops \<Rightarrow> addr option \<Rightarrow> string \<Rightarrow> pystate \<Rightarrow> unit outcome" where
  "workbook_save xl wb path st =
     (case wb of
        None \<Rightarrow> Raised AttributeError st
      | Some b \<Rightarrow>
          (case book_sheets (heap st) b of
             None \<Rightarrow> Raised AttributeError st
           | Some wss \<Rightarrow>
               (case save_error xl path wss of
                  None \<Rightarrow> Returned () (st\<lparr>files := (files st)(path \<mapsto> Workbook_file wss)\<rparr>)
                | Some (m, partial) \<Rightarrow>
                    Raised (LibError m)
                      (if partial then st\<lparr>files := (files st)(path \<mapsto> Partial_file)\<rparr>
                       else st))))"

definition py_print :: "string \<Rightarrow> pystate \<Rightarrow> unit outcome" where
  "py_print line st = Returned () (st\<lparr>stdout := stdout st @ [line]\<rparr>)"

section \<open>excel\_exporter.py\<close>

text \<open>
  \<^verbatim>\<open>self.workbook = Workbook(); self.worksheet = self.workbook.active;
  self.worksheet.title = "Image Features"\<close>
\<close>

definition create_workbook :: "pystate \<Rightarrow> unit outcome" where
  "create_workbook st =
     and_then (Workbook st) (\<lambda>b st.
       let st = st\<lparr>self_workbook := Some b\<rparr>
       in and_then (workbook_active (self_workbook st) st) (\<lambda>s st.
            let st = st\<lparr>self_worksheet := s\<rparr>
            in set_title (self_worksheet st) ''Image Features'' st))"

definition style_header :: "pystate \<Rightarrow> unit outcome" where
  "style_header st = sheet_modify (self_worksheet st) (\<lambda>s. s\<lparr>header_styled := True\<rparr>) st"

definition auto_adjust_column_width :: "pystate \<Rightarrow> unit outcome" where
  "auto_adjust_column_width st =
     sheet_modify (self_worksheet st) (\<lambda>s. s\<lparr>widths_adjusted := True\<rparr>) st"

text \<open>\<^verbatim>\<open>for key, value in features.items(): self.worksheet.append([key, value])\<close>\<close>

fun append_item_rows :: "xl_ops \<Rightarrow> (string \<times> pyval) list \<Rightarrow> pystate \<Rightarrow> unit outcome" where
  "append_item_rows xl [] st = Returned () st"
| "append_item_rows xl ((key, v) # its) st =
     and_then (worksheet_append xl (self_worksheet st) [VStr key, v] st)
       (\<lambda>_. append_item_rows xl its)"

definition export_single_image :: "xl_ops \<Rightarrow> addr \<Rightarrow> string \<Rightarrow> pystate \<Rightarrow> unit outcome" where
  "export_single_image xl features output_path st =
     and_then (create_workbook st) (\<lambda>_ st.
     and_then (worksheet_append xl (self_worksheet st) [VStr ''Feature'', VStr ''Value''] st) (\<lambda>_ st.
     and_then (case dict_at (heap st) features of
                 None \<Rightarrow> Raised AttributeError st
               | Some d \<Rightarrow> append_item_rows xl (dict_items d) st) (\<lambda>_ st.
     and_then (style_header st) (\<lambda>_ st.
     and_then (auto_adjust_column_width st) (\<lambda>_ st.
     and_then (workbook_save xl (self_workbook st) output_path st) (\<lambda>_ st.
     py_print (''Excel file saved successfully: '' @ output_path) st))))))"

text \<open>
  \<^verbatim>\<open>all_keys = set()
  for features in features_list: all_keys.update(features.keys())
  headers = sorted(list(all_keys))\<close>
  The keys are distinct strings, so the sorted list does not depend on the order in
  which \<open>list\<close> enumerates the set.
\<close>

fun update_all_keys :: "obj list \<Rightarrow> string set \<Rightarrow> addr list \<Rightarrow> py_error + string set" where
  "update_all_keys h all_keys [] = Inr all_keys"
| "update_all_keys h all_keys (r # rs) =
     (case dict_at h r of
        None \<Rightarrow> Inl AttributeError
      | Some features \<Rightarrow> update_all_keys h (all_keys \<union> set (dict_keys features)) rs)"

definition compute_headers :: "addr \<Rightarrow> pystate \<Rightarrow> (string list) outcome" where
  "compute_headers features_list st =
     (case list_items (heap st) features_list of
        None \<Rightarrow> Raised TypeError st
      | Some refs \<Rightarrow>
          (case update_all_keys (heap st) {} refs of
             Inl e \<Rightarrow> Raised e st
           | Inr all_keys \<Rightarrow> Returned (sorted_list_of_set all_keys) st))"

text \<open>
  \<^verbatim>\<open>for features in features_list:
      row = [features.get(key, "") for key in headers]
      sheet.append(row)\<close>
\<close>

definition make_row :: "pydict \<Rightarrow> string list \<Rightarrow> pyval list" where
  "make_row features headers = map (\<lambda>key. dict_get features key (VStr '''')) headers"

fun append_feature_rows ::
  "xl_ops \<Rightarrow> addr option \<Rightarrow> string list \<Rightarrow> addr list \<Rightarrow> pystate \<Rightarrow> unit outcome" where
  "append_feature_rows xl sheet headers [] st = Returned () st"
| "append_feature_rows xl sheet headers (r # rs) st =
     (case dict_at (heap st) r of
        None \<Rightarrow> Raised AttributeError st
      | Some features \<Rightarrow>
          and_then (worksheet_append xl sheet (make_row features headers) st)
            (\<lambda>_. append_feature_rows xl sheet headers rs))"

definition write_data_rows ::
  "xl_ops \<Rightarrow> addr option \<Rightarrow> string list \<Rightarrow> addr \<Rightarrow> pystate \<Rightarrow> unit outcome" where
  "write_data_rows xl sheet headers features_list st =
     (case list_items (heap st) features_list of
        None \<Rightarrow> Raised TypeError st
      | Some refs \<Rightarrow> append_feature_rows xl sheet headers refs st)"

text \<open>\<open>if not features_list\<close>: the truth value of a list is whether it has elements.\<close>

definition is_empty_list :: "addr \<Rightarrow> pystate \<Rightarrow> bool outcome" where
  "is_empty_list features_list st =
     (case list_items (heap st) features_list of
        None \<Rightarrow> Raised TypeError st
      | Some refs \<Rightarrow> Returned (refs = []) st)"

definition export_multiple_images :: "xl_ops \<Rightarrow> addr \<Rightarrow> string \<Rightarrow> pystate \<Rightarrow> unit outcome" where
  "export_multiple_images xl features_list output_path st =
     and_then (is_empty_list features_list st) (\<lambda>empty st.
       if empty then Raised (ValueError ''No features to export'') st
       else
     and_then (create_workbook st) (\<lambda>_ st.
     and_then (compute_headers features_list st) (\<lambda>headers st.
     and_then (worksheet_append xl (self_worksheet st) (map VStr headers) st) (\<lambda>_ st.
     and_then (write_data_rows xl (self_worksheet st) headers features_list st) (\<lambda>_ st.
     and_then (style_header st) (\<lambda>_ st.
     and_then (auto_adjust_column_width st) (\<lambda>_ st.
     and_then (workbook_save xl (self_workbook st) output_path st) (\<lambda>_ st.
     py_print (''Excel file saved successfully: '' @ output_path) st))))))))"

text \<open>
  \<^verbatim>\<open>sum(f.get(key, 0) for f in features_list) / len(features_list)\<close>, then
  \<^verbatim>\<open>sheet.append([label, round(mean, 2)])\<close>.
\<close>

definition column_mean :: "float_ops \<Rightarrow> obj list \<Rightarrow> addr \<Rightarrow> string \<Rightarrow> py_error + pyval" where
  "column_mean fo h features_list key =
     (case read_records h features_list of
        None \<Rightarrow> Inl TypeError
      | Some fs \<Rightarrow>
          (case py_sum fo (map (\<lambda>f. dict_get f key (VInt 0)) fs) of
             Inl e \<Rightarrow> Inl e
           | Inr s \<Rightarrow> py_truediv fo s (int (length fs))))"

definition compute_mean :: "float_ops \<Rightarrow> addr \<Rightarrow> string \<Rightarrow> pystate \<Rightarrow> pyval outcome" where
  "compute_mean fo features_list key st =
     (case column_mean fo (heap st) features_list key of
        Inl e \<Rightarrow> Raised e st
      | Inr m \<Rightarrow> Returned m st)"

definition append_rounded ::
  "xl_ops \<Rightarrow> float_ops \<Rightarrow> addr option \<Rightarrow> string \<Rightarrow> pyval \<Rightarrow> pystate \<Rightarrow> unit outcome" where
  "append_rounded xl fo sheet label m st =
     (case py_round_val fo m 2 of
        Inl e \<Rightarrow> Raised e st
      | Inr r \<Rightarrow> worksheet_append xl sheet [VStr label, r] st)"

definition list_len :: "addr \<Rightarrow> pystate \<Rightarrow> pyval outcome" where
  "list_len features_list st =
     (case list_items (heap st) features_list of
        None \<Rightarrow> Raised TypeError st
      | Some refs \<Rightarrow> Returned (VInt (int (length refs))) st)"

definition brightness_stats ::
  "xl_ops \<Rightarrow> float_ops \<Rightarrow> addr option \<Rightarrow> string list \<Rightarrow> addr \<Rightarrow> pystate \<Rightarrow> unit outcome" where
  "brightness_stats xl fo summary_sheet headers features_list st =
     (if ''avg_brightness'' \<in> set headers then
        and_then (compute_mean fo features_list ''avg_brightness'' st) (\<lambda>avg_brightness st.
        append_rounded xl fo summary_sheet ''Average Brightness'' avg_brightness st)
      else Returned () st)"

definition size_stats ::
  "xl_ops \<Rightarrow> float_ops \<Rightarrow> addr option \<Rightarrow> string list \<Rightarrow> addr \<Rightarrow> pystate \<Rightarrow> unit outcome" where
  "size_stats xl fo summary_sheet headers features_list st =
     (if ''width'' \<in> set headers \<and> ''height'' \<in> set headers then
        and_then (compute_mean fo features_list ''width'' st) (\<lambda>avg_width st.
        and_then (compute_mean fo features_list ''height'' st) (\<lambda>avg_height st.
        and_then (append_rounded xl fo summary_sheet ''Average Width'' avg_width st) (\<lambda>_ st.
        append_rounded xl fo summary_sheet ''Average Height'' avg_height st)))
      else Returned () st)"

definition export_with_summary ::
  "xl_ops \<Rightarrow> float_ops \<Rightarrow> addr \<Rightarrow> string \<Rightarrow> pystate \<Rightarrow> unit outcome" where
  "export_with_summary xl fo features_list output_path st =
     and_then (is_empty_list features_list st) (\<lambda>empty st.
       if empty then Raised (ValueError ''No features to export'') st
       else
     and_then (Workbook st) (\<lambda>b st.
       let st = st\<lparr>self_workbook := Some b\<rparr> in
     and_then (workbook_active (self_workbook st) st) (\<lambda>data_sheet st.
     and_then (set_title data_sheet ''Image Data'' st) (\<lambda>_ st.
     and_then (compute_headers features_list st) (\<lambda>headers st.
     and_then (worksheet_append xl data_sheet (map VStr headers) st) (\<lambda>_ st.
     and_then (write_data_rows xl data_sheet headers features_list st) (\<lambda>_ st.
       let st = st\<lparr>self_worksheet := data_sheet\<rparr> in
     and_then (style_header st) (\<lambda>_ st.
     and_then (auto_adjust_column_width st) (\<lambda>_ st.
     and_then (create_sheet (self_workbook st) ''Summary'' 0 st) (\<lambda>summary_sheet st.
     and_then (worksheet_append xl summary_sheet [VStr ''Summary'', VStr ''''] st) (\<lambda>_ st.
     and_then (list_len features_list st) (\<lambda>n st.
     and_then (worksheet_append xl summary_sheet [VStr ''Total Images Processed'', n] st) (\<lambda>_ st.
     and_then (brightness_stats xl fo summary_sheet headers features_list st) (\<lambda>_ st.
     and_then (size_stats xl fo summary_sheet headers features_list st) (\<lambda>_ st.
       let st = st\<lparr>self_worksheet := summary_sheet\<rparr> in
     and_then (style_header st) (\<lambda>_ st.
     and_then (auto_adjust_column_width st) (\<lambda>_ st.
     and_then (workbook_save xl (self_workbook st) output_path st) (\<lambda>_ st.
     py_print (''Excel file with summary saved successfully: '' @ output_path) st))))))))))))))))))"

section \<open>Printing and parsing text\<close>

text \<open>
  Decimal notation of a natural number, as \<open>str\<close> and f-strings print an \<open>int\<close>.
\<close>

definition digit_char :: "nat \<Rightarrow> char" where
  "digit_char d = ''0123456789'' ! d"

fun dec :: "nat \<Rightarrow> string" where
  "dec n = (if n < 10 then [digit_char n] else dec (n div 10) @ [digit_char (n mod 10)])"

declare dec.simps [simp del]

text \<open>
  \<open>str.strip()\<close> removes leading and trailing whitespace; these are the whitespace
  characters of Python among the code points below 256.
\<close>

definition py_isspace :: "char \<Rightarrow> bool" where
  "py_isspace c = ((of_char c :: nat) \<in> {9, 10, 11, 12, 13, 28, 29, 30, 31, 32, 133, 160})"

definition py_strip :: "string \<Rightarrow> string" where
  "py_strip s = rev (dropWhile py_isspace (rev (dropWhile py_isspace s)))"

text \<open>
  \<open>str(t)\<close> of a tuple: \<open>()\<close>, \<open>(a,)\<close>, \<open>(a, b, c)\<close>, each component printed by its \<open>repr\<close>.
  The components of a dominant color are \<open>numpy.uint8\<close> scalars, whose \<open>repr\<close> belongs to
  the numpy that is installed; it is the argument \<open>rp\<close>.
\<close>

fun join_comma :: "string list \<Rightarrow> string" where
  "join_comma [] = []"
| "join_comma [x] = x"
| "join_comma (x # y # ys) = x @ '', '' @ join_comma (y # ys)"

definition tuple_str :: "(nat \<Rightarrow> string) \<Rightarrow> nat list \<Rightarrow> string" where
  "tuple_str rp t =
     (case t of
        [] \<Rightarrow> ''()''
      | [x] \<Rightarrow> ''('' @ rp x @ '',)''
      | _ \<Rightarrow> ''('' @ join_comma (map rp t) @ '')'')"

text \<open>\<open>np.uint8(x)\<close> of a float: the fraction is dropped and the integer taken modulo 256.\<close>

definition np_uint8 :: "rat \<Rightarrow> nat" where
  "np_uint8 x = nat ((if x < 0 then - \<lfloor>- x\<rfloor> else \<lfloor>x\<rfloor>) mod 256)"

section \<open>image\_processor.py\<close>

text \<open>
  An image is a numpy array: its shape (height, width and, for a colour image, the
  number of channels) and its data. The primitives of OpenCV, PIL, pytesseract, numpy
  and \<open>os\<close> are not part of the repository; they are parameters. \<open>Inl m\<close> is a primitive
  raising an \<open>Exception e\<close> with \<open>str(e) = m\<close>.
  \<^item> \<open>cv2_imread\<close>: \<open>cv2.imread(path)\<close>, \<open>None\<close> when the file cannot be read;
  \<^item> \<open>os_path_getsize\<close>: \<open>os.path.getsize(path)\<close>;
  \<^item> \<open>pil_open\<close>, \<open>image_to_string\<close>: \<open>Image.open\<close> and \<open>pytesseract.image_to_string\<close>;
  \<^item> \<open>cvt_gray\<close>, \<open>cvt_rgb\<close>: \<open>cv2.cvtColor\<close> with \<open>COLOR_BGR2GRAY\<close>, \<open>COLOR_BGR2RGB\<close>;
  \<^item> \<open>np_mean\<close>: \<open>float(np.mean(a))\<close>;
  \<^item> \<open>canny\<close>: \<open>cv2.Canny(gray, low, high)\<close>; \<open>count_positive\<close>: \<open>int(np.sum(a > 0))\<close>;
  \<^item> \<open>kmeans\<close>: the centers \<open>cv2.kmeans\<close> returns for the pixels of the image, reshaped to
    rows of three \<open>float32\<close>, with the criteria, the 10 attempts and the random
    initial centers the source fixes;
  \<^item> \<open>uint8_repr\<close>: \<open>repr(x)\<close> of a \<open>numpy.uint8\<close> scalar \<open>x\<close>. The repository pins no numpy
    version: numpy before 2.0 prints \<open>12\<close>, numpy from 2.0 on prints \<open>np.uint8(12)\<close>.
\<close>

record image =
  shape :: "nat list"
  pixels :: "nat list"

record primitives =
  cv2_imread :: "string \<Rightarrow> image option"
  os_path_getsize :: "string \<Rightarrow> string + nat"
  pil_open :: "string \<Rightarrow> string + image"
  image_to_string :: "image \<Rightarrow> string + string"
  cvt_gray :: "image \<Rightarrow> string + image"
  cvt_rgb :: "image \<Rightarrow> string + image"
  np_mean :: "image \<Rightarrow> pyfloat"
  canny :: "image \<Rightarrow> nat \<Rightarrow> nat \<Rightarrow> string + image"
  count_positive :: "image \<Rightarrow> nat"
  kmeans :: "image \<Rightarrow> nat \<Rightarrow> string + rat list list"
  uint8_repr :: "nat \<Rightarrow> string"

text \<open>
  \<^verbatim>\<open>image = cv2.imread(image_path)
  if image is None: raise ValueError(f"Could not load image from {image_path}")\<close>
\<close>

definition load_image :: "primitives \<Rightarrow> string \<Rightarrow> py_error + image" where
  "load_image env image_path =
     (case cv2_imread env image_path of
        None \<Rightarrow> Inl (ValueError (''Could not load image from '' @ image_path))
      | Some img \<Rightarrow> Inr img)"

text \<open>
  \<^verbatim>\<open>try: image = Image.open(image_path); text = pytesseract.image_to_string(image);
       return text.strip()
  except Exception as e: return f"Error extracting text: {str(e)}"\<close>
  The only calls in the \<open>try\<close> block that can raise are the two library calls; the
  handler receives whatever they raise. (Exceptions outside \<open>Exception\<close>, such as a keyboard
  interrupt, are no results of a call and are not modelled.)
\<close>

definition try_ocr :: "primitives \<Rightarrow> string \<Rightarrow> string + string" where
  "try_ocr env image_path =
     (case pil_open env image_path of
        Inl m \<Rightarrow> Inl m
      | Inr img \<Rightarrow>
          (case image_to_string env img of
             Inl m \<Rightarrow> Inl m
           | Inr t \<Rightarrow> Inr (py_strip t)))"

definition extract_text :: "primitives \<Rightarrow> string \<Rightarrow> py_error + string" where
  "extract_text env image_path =
     (case try_ocr env image_path of
        Inr t \<Rightarrow> Inr t
      | Inl m \<Rightarrow> Inr (''Error extracting text: '' @ m))"

text \<open>
  \<^verbatim>\<open>height, width = image.shape[:2]\<close> needs two dimensions; the dictionary display then
  evaluates its values in order, so \<open>width / height\<close> is reached after the file size.
\<close>

definition get_image_properties :: "float_ops \<Rightarrow> primitives \<Rightarrow> string \<Rightarrow> py_error + pydict" where
  "get_image_properties fo env image_path =
     bind_err (load_image env image_path) (\<lambda>img.
       case shape img of
         height # width # rest \<Rightarrow>
           (let channels = (case rest of [] \<Rightarrow> 1 | c # _ \<Rightarrow> c)
            in bind_err (lib_call (os_path_getsize env image_path)) (\<lambda>file_size.
               bind_err (py_truediv fo (VInt (int file_size)) 1024) (\<lambda>kb.
               bind_err (py_round_val fo kb 2) (\<lambda>file_size_kb.
               bind_err (py_truediv fo (VInt (int width)) (int height)) (\<lambda>ratio.
               bind_err (py_round_val fo ratio 2) (\<lambda>aspect_ratio.
               Inr [(''width'', VInt (int width)),
                    (''height'', VInt (int height)),
                    (''channels'', VInt (int channels)),
                    (''file_size_kb'', file_size_kb),
                    (''aspect_ratio'', aspect_ratio),
                    (''total_pixels'', VInt (int width * int height))]))))))
       | dims \<Rightarrow>
           Inl (ValueError (''not enough values to unpack (expected 2, got ''
                             @ dec (length dims) @ '')'')))"

text \<open>
  The three analyses load the image again, convert it and call their primitive.
  \<^verbatim>\<open>centers = np.uint8(centers); return [tuple(color) for color in centers]\<close>
\<close>

definition detect_dominant_colors :: "primitives \<Rightarrow> string \<Rightarrow> nat \<Rightarrow> py_error + nat list list" where
  "detect_dominant_colors env image_path n_colors =
     bind_err (load_image env image_path) (\<lambda>img.
     bind_err (lib_call (cvt_rgb env img)) (\<lambda>rgb.
     bind_err (lib_call (kmeans env rgb n_colors)) (\<lambda>centers.
     Inr (map (map np_uint8) centers))))"

definition calculate_brightness :: "float_ops \<Rightarrow> primitives \<Rightarrow> string \<Rightarrow> py_error + pyval" where
  "calculate_brightness fo env image_path =
     bind_err (load_image env image_path) (\<lambda>img.
     bind_err (lib_call (cvt_gray env img)) (\<lambda>gray.
     py_round_val fo (VFloat (np_mean env gray)) 2))"

definition detect_edges :: "primitives \<Rightarrow> string \<Rightarrow> py_error + pyval" where
  "detect_edges env image_path =
     bind_err (load_image env image_path) (\<lambda>img.
     bind_err (lib_call (cvt_gray env img)) (\<lambda>gray.
     bind_err (lib_call (canny env gray 100 200)) (\<lambda>edges.
     Inr (VInt (int (count_positive env edges))))))"

text \<open>
  \<^verbatim>\<open>for i, color in enumerate(dominant_colors):
      features[f'dominant_color_{i+1}'] = f"RGB{color}"\<close>
  An f-string formats the tuple \<open>color\<close> by \<open>str\<close>.
\<close>

fun add_colors :: "(nat \<Rightarrow> string) \<Rightarrow> pydict \<Rightarrow> nat \<Rightarrow> nat list list \<Rightarrow> pydict" where
  "add_colors rp features i [] = features"
| "add_colors rp features i (color # colors) =
     add_colors rp (dict_set features (''dominant_color_'' @ dec (i + 1))
                   (VStr (''RGB'' @ tuple_str rp color)))
       (i + 1) colors"

definition extract_all_features :: "float_ops \<Rightarrow> primitives \<Rightarrow> string \<Rightarrow> py_error + pydict" where
  "extract_all_features fo env image_path =
     (let features = [];
          features = dict_set features ''image_path'' (VStr image_path)
      in bind_err (extract_text env image_path) (\<lambda>t.
         let features = dict_set features ''extracted_text'' (VStr t)
         in bind_err (get_image_properties fo env image_path) (\<lambda>properties.
            let features = dict_update features properties
            in bind_err (calculate_brightness fo env image_path) (\<lambda>b.
               let features = dict_set features ''avg_brightness'' b
               in bind_err (detect_edges env image_path) (\<lambda>e.
                  let features = dict_set features ''edge_count'' e
                  in bind_err (detect_dominant_colors env image_path 3) (\<lambda>dominant_colors.
                     Inr (add_colors (uint8_repr env) features 0 dominant_colors)))))))"

section \<open>Results in closed form\<close>

text \<open>
  The definitions of this section are not part of the program: they name the rows, sheets
  and states the lemmas below show the program to produce, so that the lemmas stay
  readable.
\<close>

text \<open>The state a call leaves behind, returned or raised.\<close>

definition final_state :: "'a outcome \<Rightarrow> pystate" where
  "final_state r = (case r of Returned x st \<Rightarrow> st | Raised e st \<Rightarrow> st)"

text \<open>
  \<open>ends_in r Q E\<close>: the call returned a value and a state that satisfy \<open>Q\<close>, or raised an
  exception in a state that satisfy \<open>E\<close>.
\<close>

definition ends_in ::
  "'a outcome \<Rightarrow> ('a \<Rightarrow> pystate \<Rightarrow> bool) \<Rightarrow> (py_error \<Rightarrow> pystate \<Rightarrow> bool) \<Rightarrow> bool" where
  "ends_in r Q E = (case r of Returned x st \<Rightarrow> Q x st | Raised e st \<Rightarrow> E e st)"


text \<open>
  What \<open>append\<close> answers for one row and for a sequence of rows appended one after the
  other: the cells kept, or the exception of the first value refused.
\<close>

definition store_row :: "xl_ops \<Rightarrow> pyval list \<Rightarrow> py_error + pyval list" where
  "store_row xl row =
     (case store_cells xl row of Inl (m, cs) \<Rightarrow> Inl (LibError m) | Inr cs \<Rightarrow> Inr cs)"

fun store_rows :: "xl_ops \<Rightarrow> pyval list list \<Rightarrow> py_error + pyval list list" where
  "store_rows xl [] = Inr []"
| "store_rows xl (r # rs) =
     bind_err (store_row xl r) (\<lambda>cs.
     bind_err (store_rows xl rs) (\<lambda>rws. Inr (cs # rws)))"

text \<open>
  The rows both multi-record exports give to \<open>append\<close> for the data sheet, as a function
  of the records read: the header row, then one row per record. The rows of the
  single-record sheet.
\<close>

definition feature_table :: "pydict list \<Rightarrow> pyval list list" where
  "feature_table ds =
     (let headers = sorted_list_of_set (\<Union>d\<in>set ds. set (dict_keys d))
      in map VStr headers # map (\<lambda>d. make_row d headers) ds)"

definition item_rows :: "pydict \<Rightarrow> pyval list list" where
  "item_rows d = [VStr ''Feature'', VStr ''Value''] # map (\<lambda>(key, v). [VStr key, v]) (dict_items d)"

text \<open>A finished sheet: complete rows, both cosmetic passes done.\<close>

definition finished_sheet :: "string \<Rightarrow> pyval list list \<Rightarrow> worksheet" where
  "finished_sheet t rws =
     \<lparr>title = t, rows = rws, pending = [], header_styled = True, widths_adjusted = True\<rparr>"

text \<open>
  The rows of the summary sheet, or the exception that ends the export before they are
  complete, in the order of the source: the two fixed rows, the mean brightness when the
  column exists, the two mean sizes when both columns exist.
\<close>

definition mean_val :: "float_ops \<Rightarrow> pydict list \<Rightarrow> string \<Rightarrow> py_error + pyval" where
  "mean_val fo ds key =
     bind_err (py_sum fo (map (\<lambda>d. dict_get d key (VInt 0)) ds)) (\<lambda>s.
     py_truediv fo s (int (length ds)))"

definition rounded_row :: "xl_ops \<Rightarrow> float_ops \<Rightarrow> string \<Rightarrow> pyval \<Rightarrow> py_error + pyval list" where
  "rounded_row xl fo label m =
     bind_err (py_round_val fo m 2) (\<lambda>r. store_row xl [VStr label, r])"

definition brightness_rows :: "xl_ops \<Rightarrow> float_ops \<Rightarrow> pydict list \<Rightarrow> py_error + pyval list list" where
  "brightness_rows xl fo ds =
     (if ''avg_brightness'' \<in> (\<Union>d\<in>set ds. set (dict_keys d)) then
        bind_err (mean_val fo ds ''avg_brightness'') (\<lambda>m.
        bind_err (rounded_row xl fo ''Average Brightness'' m) (\<lambda>r. Inr [r]))
      else Inr [])"

definition size_rows :: "xl_ops \<Rightarrow> float_ops \<Rightarrow> pydict list \<Rightarrow> py_error + pyval list list" where
  "size_rows xl fo ds =
     (if ''width'' \<in> (\<Union>d\<in>set ds. set (dict_keys d)) \<and>
         ''height'' \<in> (\<Union>d\<in>set ds. set (dict_keys d)) then
        bind_err (mean_val fo ds ''width'') (\<lambda>w.
        bind_err (mean_val fo ds ''height'') (\<lambda>h.
        bind_err (rounded_row xl fo ''Average Width'' w) (\<lambda>r1.
        bind_err (rounded_row xl fo ''Average Height'' h) (\<lambda>r2. Inr [r1, r2]))))
      else Inr [])"

definition summary_rows :: "xl_ops \<Rightarrow> float_ops \<Rightarrow> pydict list \<Rightarrow> py_error + pyval list list" where
  "summary_rows xl fo ds =
     bind_err (store_row xl [VStr ''Summary'', VStr '''']) (\<lambda>r1.
     bind_err (store_row xl [VStr ''Total Images Processed'', VInt (int (length ds))]) (\<lambda>r2.
     bind_err (brightness_rows xl fo ds) (\<lambda>br.
     bind_err (size_rows xl fo ds) (\<lambda>sz. Inr ([r1, r2] @ br @ sz)))))"


text \<open>
  The states an export goes through: the caller's state with a new workbook of one sheet
  behind its heap, and with a new workbook of a summary sheet and a data sheet.
\<close>

definition book_state :: "pystate \<Rightarrow> addr option \<Rightarrow> worksheet \<Rightarrow> pystate" where
  "book_state st ws s =
     st\<lparr>heap := heap st @ [OBook [Suc (length (heap st))], OSheet s],
        self_workbook := Some (length (heap st)),
        self_worksheet := ws\<rparr>"

definition summary_state :: "pystate \<Rightarrow> worksheet \<Rightarrow> worksheet \<Rightarrow> pystate" where
  "summary_state st d s =
     st\<lparr>heap := heap st @
             [OBook [Suc (Suc (length (heap st))), Suc (length (heap st))], OSheet d, OSheet s],
        self_workbook := Some (length (heap st)),
        self_worksheet := Some (Suc (length (heap st)))\<rparr>"

text \<open>
  Feature extraction: the dictionary \<open>get_image_properties\<close> returns, the record before the
  dominant colors are added, and the value stored for one color.
\<close>

definition properties_of :: "float_ops \<Rightarrow> nat \<Rightarrow> nat \<Rightarrow> nat list \<Rightarrow> pyfloat \<Rightarrow> pyfloat \<Rightarrow> pydict" where
  "properties_of fo height width rest kb ratio =
     [(''width'', VInt (int width)),
      (''height'', VInt (int height)),
      (''channels'', VInt (int (case rest of [] \<Rightarrow> 1 | c # _ \<Rightarrow> c))),
      (''file_size_kb'', VFloat (float_round fo kb 2)),
      (''aspect_ratio'', VFloat (float_round fo ratio 2)),
      (''total_pixels'', VInt (int width * int height))]"

definition base_features :: "string \<Rightarrow> string \<Rightarrow> pydict \<Rightarrow> pyval \<Rightarrow> pyval \<Rightarrow> pydict" where
  "base_features p t props b e =
     [(''image_path'', VStr p), (''extracted_text'', VStr t)] @ props
     @ [(''avg_brightness'', b), (''edge_count'', e)]"


section \<open>Example inputs\<close>

text \<open>
  An instance of the float operations for the examples: arithmetic without rounding
  error, \<open>round\<close> to the nearest multiple of a power of ten, ties to even. The operands and
  results of the examples are small integers, on which binary floating point computes
  the same. It is one instance of the parameters; no theorem rests on it.
\<close>

definition round_half_even :: "rat \<Rightarrow> int" where
  "round_half_even y =
     (let f = \<lfloor>y\<rfloor>; r = y - of_int f
      in if r < 1 / 2 then f else if 1 / 2 < r then f + 1
         else if even f then f else f + 1)"

definition example_floats :: float_ops where
  "example_floats =
     \<lparr>float_of_int = (\<lambda>i. Some (Finite (of_int i))),
      float_add = (\<lambda>x y. case x of
                     Finite a \<Rightarrow> (case y of Finite b \<Rightarrow> Finite (a + b) | _ \<Rightarrow> NaN)
                   | _ \<Rightarrow> NaN),
      int_truediv = (\<lambda>a b. Some (Finite (of_int a / of_int b))),
      float_truediv = (\<lambda>x y. case x of
                     Finite a \<Rightarrow> (case y of Finite b \<Rightarrow> Finite (a / b) | _ \<Rightarrow> NaN)
                   | _ \<Rightarrow> NaN),
      float_round = (\<lambda>x n. case x of
                     Finite a \<Rightarrow> Finite (of_int (round_half_even (a * 10 ^ n)) / 10 ^ n)
                   | _ \<Rightarrow> x)\<rparr>"

text \<open>
  An instance of the openpyxl parameters, after openpyxl 3.1: \<open>check_string\<close> cuts the
  text at 32767 characters and raises \<open>IllegalCharacterError\<close> when what is left holds a
  character matching \<^verbatim>\<open>[\000-\010]|[\013-\014]|[\016-\037]\<close>; \<open>save\<close> formats every number
  with \<^verbatim>\<open>"%.16g" % value\<close>, which raises \<open>OverflowError\<close> for an \<open>int\<close> that does not round
  to a double.
\<close>

definition illegal_character :: "char \<Rightarrow> bool" where
  "illegal_character c =
     (let n = (of_char c :: nat) in n \<le> 8 \<or> n = 11 \<or> n = 12 \<or> (14 \<le> n \<and> n \<le> 31))"

definition int_fits_float :: "pyval \<Rightarrow> bool" where
  "int_fits_float v = (case v of VInt i \<Rightarrow> \<bar>i\<bar> < 2 ^ 1024 - 2 ^ 970 | _ \<Rightarrow> True)"

definition openpyxl_lib :: xl_ops where
  "openpyxl_lib =
     \<lparr>check_string = (\<lambda>s. let t = take 32767 s
                           in if list_ex illegal_character t
                              then Inl (t @ '' cannot be used in worksheets.'')
                              else Inr t),
      save_error = (\<lambda>path sheets.
         if list_all (\<lambda>ws. list_all (list_all int_fits_float) (rows ws @ [pending ws])) sheets
         then None
         else Some (''int too large to convert to float'', True))\<rparr>"

text \<open>
  The two records of the end-to-end scenario, held in a list at address 2 of a heap with
  a fresh exporter.
\<close>

definition example_state :: pystate where
  "example_state =
     \<lparr>heap = [ODict [(''width'', VInt 100), (''height'', VInt 50), (''avg_brightness'', VInt 10)],
              ODict [(''width'', VInt 200), (''height'', VInt 100)],
              OList [0, 1]],
      self_workbook = None, self_worksheet = None, files = (\<lambda>_. None), stdout = []\<rparr>"

definition example_records :: "pydict list" where
  "example_records =
     [[(''width'', VInt 100), (''height'', VInt 50), (''avg_brightness'', VInt 10)],
      [(''width'', VInt 200), (''height'', VInt 100)]]"



definition single_state :: pystate where
  "single_state =
     \<lparr>heap = [ODict [(''image_path'', VStr ''a.png''), (''width'', VInt 100), (''height'', VInt 50)]],
      self_workbook = None, self_worksheet = None, files = (\<lambda>_. None), stdout = []\<rparr>"

text \<open>
  The record of a two-page scan: Tesseract separates pages by a form feed (code 12), and
  \<open>strip\<close> removes it at the ends of the text only. The record alone at address 0 and in a
  list at address 1.
\<close>

definition two_pages :: string where
  "two_pages = ''page 1'' @ [CHR 0x0C] @ ''page 2''"

definition scan_record :: pydict where
  "scan_record =
     [(''image_path'', VStr ''scan.png''), (''extracted_text'', VStr two_pages),
      (''avg_brightness'', VFloat (Finite 10))]"

definition scan_state :: pystate where
  "scan_state =
     \<lparr>heap = [ODict scan_record, OList [0]],
      self_workbook = None, self_worksheet = None, files = (\<lambda>_. None), stdout = []\<rparr>"

text \<open>
  Primitives for three paths: \<open>a.png\<close> decodes to a 100 by 50 colour image on which
  every primitive succeeds; \<open>flat.png\<close> decodes to an array of height 0, and OCR fails on it;
  any other path cannot be read. \<open>example_env\<close> prints a \<open>numpy.uint8\<close> as numpy before 2.0
  does, \<open>numpy2_env\<close> as numpy from 2.0 on does.
\<close>

definition example_image :: image where
  "example_image = \<lparr>shape = [50, 100, 3], pixels = []\<rparr>"

definition flat_image :: image where
  "flat_image = \<lparr>shape = [0, 100, 3], pixels = []\<rparr>"

definition example_env :: primitives where
  "example_env =
     \<lparr>cv2_imread = (\<lambda>p. if p = ''a.png'' then Some example_image
                          else if p = ''flat.png'' then Some flat_image else None),
      os_path_getsize = (\<lambda>p. Inr 2048),
      pil_open = (\<lambda>p. if p = ''a.png'' then Inr example_image
                        else if p = ''flat.png'' then Inr flat_image
                        else Inl ''cannot identify image file''),
      image_to_string = (\<lambda>img. if img = example_image then Inr '' hello ''
                               else Inl ''tesseract failed''),
      cvt_gray = (\<lambda>img. Inr img),
      cvt_rgb = (\<lambda>img. Inr img),
      np_mean = (\<lambda>img. Finite 10),
      canny = (\<lambda>img low high. Inr img),
      count_positive = (\<lambda>img. 7),
      kmeans = (\<lambda>img k. Inr (replicate k [12, 34, 567 / 10])),
      uint8_repr = dec\<rparr>"


definition example_features :: pydict where
  "example_features =
     [(''image_path'', VStr ''a.png''), (''extracted_text'', VStr ''hello''),
      (''width'', VInt 100), (''height'', VInt 50), (''channels'', VInt 3),
      (''file_size_kb'', VFloat (Finite 2)), (''aspect_ratio'', VFloat (Finite 2)),
      (''total_pixels'', VInt 5000), (''avg_brightness'', VFloat (Finite 10)),
      (''edge_count'', VInt 7),
      (''dominant_color_1'', VStr ''RGB(12, 34, 56)''),
      (''dominant_color_2'', VStr ''RGB(12, 34, 56)''),
      (''dominant_color_3'', VStr ''RGB(12, 34, 56)'')]"


section \<open>The store: reads survive allocation and writes to sheets\<close>

lemma heap_get_append: "a < length h \<Longrightarrow> heap_get (h @ xs) a = heap_get h a"
  by (simp add: heap_get_def nth_append)

lemma heap_get_Some_lt: "heap_get h a = Some x \<Longrightarrow> a < length h"
  by (simp add: heap_get_def split: if_splits)

lemma list_items_append: "list_items h a = Some refs \<Longrightarrow> list_items (h @ xs) a = Some refs"
  by (auto simp: list_items_def heap_get_def nth_append split: if_splits option.splits obj.splits)

lemma dict_at_append: "dict_at h a = Some d \<Longrightarrow> dict_at (h @ xs) a = Some d"
  by (auto simp: dict_at_def heap_get_def nth_append split: if_splits option.splits obj.splits)

lemma those_Some_iff: "those xs = Some ys \<longleftrightarrow> xs = map Some ys"
  by (induction xs arbitrary: ys) (auto split: option.splits)

lemma dicts_at_append:
  "those (map (dict_at h) refs) = Some ds \<Longrightarrow> those (map (dict_at (h @ xs)) refs) = Some ds"
proof (induction refs arbitrary: ds)
  case Nil
  then show ?case by simp
next
  case (Cons r rs)
  then show ?case by (auto split: option.splits simp: dict_at_append)
qed

lemma dict_at_update_sheet:
  "sheet_at h w = Some s0 \<Longrightarrow> dict_at h r = Some d \<Longrightarrow> dict_at (h[w := OSheet s]) r = Some d"
  by (auto simp: dict_at_def sheet_at_def heap_get_def nth_list_update split: if_splits option.splits obj.splits)

lemma dicts_at_update_sheet:
  "sheet_at h w = Some s0 \<Longrightarrow> those (map (dict_at h) refs) = Some ds \<Longrightarrow> those (map (dict_at (h[w := OSheet s])) refs) = Some ds"
proof (induction refs arbitrary: ds)
  case Nil
  then show ?case by simp
next
  case (Cons r rs)
  then show ?case by (auto split: option.splits simp: dict_at_update_sheet)
qed

lemma sheet_at_update_same:
  "sheet_at h w = Some s0 \<Longrightarrow> sheet_at (h[w := OSheet s]) w = Some s"
  by (auto simp: sheet_at_def heap_get_def split: if_splits option.splits obj.splits)

lemma sheet_at_update_id: "sheet_at h w = Some s \<Longrightarrow> h[w := OSheet s] = h"
  by (auto simp: sheet_at_def heap_get_def list_update_same_conv split: if_splits option.splits obj.splits)

lemma update_all_keys_ok:
  "those (map (dict_at h) refs) = Some ds \<Longrightarrow>
   update_all_keys h A refs = Inr (A \<union> (\<Union>d\<in>set ds. set (dict_keys d)))"
proof (induction refs arbitrary: A ds)
  case Nil
  then show ?case by simp
next
  case (Cons r rs)
  then show ?case by (auto split: option.splits)
qed

lemma read_records_SomeD:
  "read_records h a = Some ds \<Longrightarrow>
   \<exists>refs. list_items h a = Some refs \<and> those (map (dict_at h) refs) = Some ds \<and> length refs = length ds"
  by (auto simp: read_records_def those_Some_iff split: option.splits dest!: arg_cong [where f = length])

lemma list_items_lt: "list_items h a = Some refs \<Longrightarrow> a < length h"
  by (auto simp: list_items_def heap_get_def split: if_splits option.splits)

lemma read_records_append:
  "read_records h a = Some ds \<Longrightarrow> read_records (h @ xs) a = Some ds"
  by (auto simp: read_records_def list_items_append dicts_at_append split: option.splits)

lemma read_records_Nil: "read_records h a = Some [] \<Longrightarrow> list_items h a = Some []"
  by (auto simp: read_records_def those_Some_iff split: option.splits)

lemma frame_reads:
  assumes "heap st' = heap st @ xs" and "read_records (heap st) a = Some ds"
  shows "list_items (heap st') a = list_items (heap st) a"
    and "read_records (heap st') a = Some ds"
proof -
  from read_records_SomeD [OF assms(2)] obtain refs where
    li: "list_items (heap st) a = Some refs" by blast
  show "list_items (heap st') a = list_items (heap st) a"
    unfolding assms(1) li by (rule list_items_append [OF li])
  show "read_records (heap st') a = Some ds"
    unfolding assms(1) by (rule read_records_append [OF assms(2)])
qed

section \<open>Outcomes of calls in sequence\<close>

lemma ends_in_Returned [simp]: "ends_in (Returned x st) Q E = Q x st"
  by (simp add: ends_in_def)

lemma ends_in_Raised [simp]: "ends_in (Raised e st) Q E = E e st"
  by (simp add: ends_in_def)

lemma ends_in_bind:
  assumes "ends_in r Q' E'"
    and "\<And>x st. Q' x st \<Longrightarrow> ends_in (k x st) Q E"
    and "\<And>e st. E' e st \<Longrightarrow> E e st"
  shows "ends_in (and_then r k) Q E"
  using assms by (cases r) (simp_all add: and_then_def)

lemma ends_in_mono:
  assumes "ends_in r Q' E'"
    and "\<And>x st. Q' x st \<Longrightarrow> Q x st"
    and "\<And>e st. E' e st \<Longrightarrow> E e st"
  shows "ends_in r Q E"
  using assms by (cases r) simp_all

lemma ends_in_ReturnedD: "ends_in r Q E \<Longrightarrow> r = Returned x st \<Longrightarrow> Q x st"
  by simp

lemma ends_in_RaisedD: "ends_in r Q E \<Longrightarrow> r = Raised e st \<Longrightarrow> E e st"
  by simp

lemma ends_in_final: "ends_in r (\<lambda>x. P) (\<lambda>e. P) \<Longrightarrow> P (final_state r)"
  by (cases r) (simp_all add: final_state_def)

section \<open>Rows given to append\<close>

lemma store_cells_Inr:
  "store_cells xl row = Inr cs \<Longrightarrow>
   length cs = length row \<and> (\<forall>j<length row. cell_value xl (row ! j) = Inr (cs ! j))"
proof (induction row arbitrary: cs)
  case Nil
  then show ?case by simp
next
  case (Cons v vs)
  from Cons.prems obtain c cs' where c: "cell_value xl v = Inr c"
    and cs': "store_cells xl vs = Inr cs'" and cs: "cs = c # cs'"
    by (auto split: sum.splits prod.splits)
  from Cons.IH [OF cs'] c cs show ?case
    by (auto simp: nth_Cons split: nat.splits)
qed

lemma store_row_Inr:
  "store_row xl row = Inr cs \<Longrightarrow>
   length cs = length row \<and> (\<forall>j<length row. cell_value xl (row ! j) = Inr (cs ! j))"
  by (rule store_cells_Inr) (auto simp: store_row_def split: sum.splits prod.splits)



lemma store_rows_Inr:
  "store_rows xl rs = Inr tbl \<Longrightarrow>
   length tbl = length rs \<and> (\<forall>i<length rs. store_row xl (rs ! i) = Inr (tbl ! i))"
proof (induction rs arbitrary: tbl)
  case Nil
  then show ?case by simp
next
  case (Cons r rs)
  from Cons.prems obtain cs tbl' where cs: "store_row xl r = Inr cs"
    and t: "store_rows xl rs = Inr tbl'" and tbl: "tbl = cs # tbl'"
    by (auto simp: bind_err_def split: sum.splits)
  from Cons.IH [OF t] cs tbl show ?case
    by (auto simp: nth_Cons split: nat.splits)
qed

lemma store_rows_append:
  "store_rows xl (rs @ rs') =
     bind_err (store_rows xl rs) (\<lambda>t. bind_err (store_rows xl rs') (\<lambda>t'. Inr (t @ t')))"
  by (induction rs) (auto simp: bind_err_def split: sum.splits)

lemma worksheet_append_ends:
  assumes "heap st = pre @ OSheet s # post" and "w = length pre" and "pending s = []"
  shows "ends_in (worksheet_append xl (Some w) row st)
     (\<lambda>_ st'. \<exists>cs. store_row xl row = Inr cs \<and>
         st' = st\<lparr>heap := pre @ OSheet (s\<lparr>rows := rows s @ [cs]\<rparr>) # post\<rparr>)
     (\<lambda>e st'. store_row xl row = Inl e \<and>
         (\<exists>s'. st' = st\<lparr>heap := pre @ OSheet s' # post\<rparr>))"
proof -
  have sh: "sheet_at (heap st) w = Some s"
    using assms(1,2) by (simp add: sheet_at_def heap_get_def nth_append)
  have upd: "(heap st)[w := OSheet s'] = pre @ OSheet s' # post" for s'
    using assms(1,2) by (simp add: list_update_append)
  have keep: "s\<lparr>rows := r, pending := []\<rparr> = s\<lparr>rows := r\<rparr>" for r
    using assms(3) by (cases s) simp
  show ?thesis
  proof (cases "store_cells xl row")
    case (Inl a)
    obtain m cs where a: "a = (m, cs)" by (cases a)
    show ?thesis
      using sh Inl a by (auto simp: worksheet_append_def store_row_def upd)
  next
    case (Inr cs)
    show ?thesis
      using sh Inr assms(3) by (simp add: worksheet_append_def store_row_def upd keep)
  qed
qed

lemma append_feature_rows_ends:
  assumes "those (map (dict_at (heap st)) refs) = Some ds"
    and "heap st = pre @ OSheet s # post" and "w = length pre" and "pending s = []"
  shows "ends_in (append_feature_rows xl (Some w) H refs st)
     (\<lambda>_ st'. \<exists>rws. store_rows xl (map (\<lambda>d. make_row d H) ds) = Inr rws \<and>
         st' = st\<lparr>heap := pre @ OSheet (s\<lparr>rows := rows s @ rws\<rparr>) # post\<rparr>)
     (\<lambda>e st'. store_rows xl (map (\<lambda>d. make_row d H) ds) = Inl e \<and>
         (\<exists>s'. st' = st\<lparr>heap := pre @ OSheet s' # post\<rparr>))"
  using assms
proof (induction refs arbitrary: st ds s)
  case Nil
  then show ?case by (cases st) simp
next
  case (Cons r rs)
  from Cons.prems(1) obtain d ds' where d: "dict_at (heap st) r = Some d"
    and ds': "those (map (dict_at (heap st)) rs) = Some ds'" and ds: "ds = d # ds'"
    by (auto split: option.splits)
  have sh: "sheet_at (heap st) w = Some s"
    using Cons.prems(2,3) by (simp add: sheet_at_def heap_get_def nth_append)
  have upd: "(heap st)[w := OSheet s'] = pre @ OSheet s' # post" for s'
    using Cons.prems(2,3) by (simp add: list_update_append)
  show ?case
    unfolding append_feature_rows.simps d option.case
  proof (rule ends_in_bind [OF worksheet_append_ends [OF Cons.prems(2,3,4)]])
    fix e st'
    assume "store_row xl (make_row d H) = Inl e \<and>
         (\<exists>s'. st' = st\<lparr>heap := pre @ OSheet s' # post\<rparr>)"
    then show "store_rows xl (map (\<lambda>d. make_row d H) ds) = Inl e \<and>
         (\<exists>s'. st' = st\<lparr>heap := pre @ OSheet s' # post\<rparr>)"
      by (simp add: ds bind_err_def)
  next
    fix x :: unit and st1
    assume "\<exists>cs. store_row xl (make_row d H) = Inr cs \<and>
         st1 = st\<lparr>heap := pre @ OSheet (s\<lparr>rows := rows s @ [cs]\<rparr>) # post\<rparr>"
    then obtain cs where cs: "store_row xl (make_row d H) = Inr cs"
      and st1: "st1 = st\<lparr>heap := pre @ OSheet (s\<lparr>rows := rows s @ [cs]\<rparr>) # post\<rparr>"
      by blast
    let ?s1 = "s\<lparr>rows := rows s @ [cs]\<rparr>"
    have h1: "heap st1 = pre @ OSheet ?s1 # post" by (simp add: st1)
    have a: "those (map (dict_at (heap st1)) rs) = Some ds'"
      using dicts_at_update_sheet [OF sh ds', of ?s1] by (simp add: h1 upd)
    have p1: "pending ?s1 = []" using Cons.prems(4) by simp
    show "ends_in (append_feature_rows xl (Some w) H rs st1)
       (\<lambda>_ st'. \<exists>rws. store_rows xl (map (\<lambda>d. make_row d H) ds) = Inr rws \<and>
           st' = st\<lparr>heap := pre @ OSheet (s\<lparr>rows := rows s @ rws\<rparr>) # post\<rparr>)
       (\<lambda>e st'. store_rows xl (map (\<lambda>d. make_row d H) ds) = Inl e \<and>
           (\<exists>s'. st' = st\<lparr>heap := pre @ OSheet s' # post\<rparr>))"
    proof (rule ends_in_mono [OF Cons.IH [OF a h1 Cons.prems(3) p1]])
      fix y :: unit and st'
      assume "\<exists>rws. store_rows xl (map (\<lambda>d. make_row d H) ds') = Inr rws \<and>
         st' = st1\<lparr>heap := pre @ OSheet (?s1\<lparr>rows := rows ?s1 @ rws\<rparr>) # post\<rparr>"
      then show "\<exists>rws. store_rows xl (map (\<lambda>d. make_row d H) ds) = Inr rws \<and>
           st' = st\<lparr>heap := pre @ OSheet (s\<lparr>rows := rows s @ rws\<rparr>) # post\<rparr>"
        using cs by (auto simp: ds bind_err_def st1)
    next
      fix e st'
      assume "store_rows xl (map (\<lambda>d. make_row d H) ds') = Inl e \<and>
         (\<exists>s'. st' = st1\<lparr>heap := pre @ OSheet s' # post\<rparr>)"
      then show "store_rows xl (map (\<lambda>d. make_row d H) ds) = Inl e \<and>
           (\<exists>s'. st' = st\<lparr>heap := pre @ OSheet s' # post\<rparr>)"
        using cs by (auto simp: ds bind_err_def st1)
    qed
  qed
qed

lemma append_item_rows_ends:
  assumes "self_worksheet st = Some w"
    and "heap st = pre @ OSheet s # post" and "w = length pre" and "pending s = []"
  shows "ends_in (append_item_rows xl its st)
     (\<lambda>_ st'. \<exists>rws. store_rows xl (map (\<lambda>(key, v). [VStr key, v]) its) = Inr rws \<and>
         st' = st\<lparr>heap := pre @ OSheet (s\<lparr>rows := rows s @ rws\<rparr>) # post\<rparr>)
     (\<lambda>e st'. store_rows xl (map (\<lambda>(key, v). [VStr key, v]) its) = Inl e \<and>
         (\<exists>s'. st' = st\<lparr>heap := pre @ OSheet s' # post\<rparr>))"
  using assms
proof (induction its arbitrary: st s)
  case Nil
  then show ?case by (cases st) simp
next
  case (Cons it its)
  obtain key v where it: "it = (key, v)" by (cases it)
  show ?case
    unfolding it append_item_rows.simps Cons.prems(1)
  proof (rule ends_in_bind [OF worksheet_append_ends [OF Cons.prems(2,3,4)]])
    fix e st'
    assume "store_row xl [VStr key, v] = Inl e \<and>
         (\<exists>s'. st' = st\<lparr>heap := pre @ OSheet s' # post\<rparr>)"
    then show "store_rows xl (map (\<lambda>(key, v). [VStr key, v]) ((key, v) # its)) = Inl e \<and>
         (\<exists>s'. st' = st\<lparr>heap := pre @ OSheet s' # post\<rparr>)"
      by (simp add: bind_err_def)
  next
    fix x :: unit and st1
    assume "\<exists>cs. store_row xl [VStr key, v] = Inr cs \<and>
         st1 = st\<lparr>heap := pre @ OSheet (s\<lparr>rows := rows s @ [cs]\<rparr>) # post\<rparr>"
    then obtain cs where cs: "store_row xl [VStr key, v] = Inr cs"
      and st1: "st1 = st\<lparr>heap := pre @ OSheet (s\<lparr>rows := rows s @ [cs]\<rparr>) # post\<rparr>"
      by blast
    let ?s1 = "s\<lparr>rows := rows s @ [cs]\<rparr>"
    have h1: "heap st1 = pre @ OSheet ?s1 # post" by (simp add: st1)
    have w1: "self_worksheet st1 = Some w" using Cons.prems(1) by (simp add: st1)
    have p1: "pending ?s1 = []" using Cons.prems(4) by simp
    show "ends_in (append_item_rows xl its st1)
       (\<lambda>_ st'. \<exists>rws. store_rows xl (map (\<lambda>(key, v). [VStr key, v]) ((key, v) # its)) = Inr rws \<and>
           st' = st\<lparr>heap := pre @ OSheet (s\<lparr>rows := rows s @ rws\<rparr>) # post\<rparr>)
       (\<lambda>e st'. store_rows xl (map (\<lambda>(key, v). [VStr key, v]) ((key, v) # its)) = Inl e \<and>
           (\<exists>s'. st' = st\<lparr>heap := pre @ OSheet s' # post\<rparr>))"
    proof (rule ends_in_mono [OF Cons.IH [OF w1 h1 Cons.prems(3) p1]])
      fix y :: unit and st'
      assume "\<exists>rws. store_rows xl (map (\<lambda>(key, v). [VStr key, v]) its) = Inr rws \<and>
         st' = st1\<lparr>heap := pre @ OSheet (?s1\<lparr>rows := rows ?s1 @ rws\<rparr>) # post\<rparr>"
      then show "\<exists>rws. store_rows xl (map (\<lambda>(key, v). [VStr key, v]) ((key, v) # its)) = Inr rws \<and>
           st' = st\<lparr>heap := pre @ OSheet (s\<lparr>rows := rows s @ rws\<rparr>) # post\<rparr>"
        using cs by (auto simp: bind_err_def st1)
    next
      fix e st'
      assume "store_rows xl (map (\<lambda>(key, v). [VStr key, v]) its) = Inl e \<and>
         (\<exists>s'. st' = st1\<lparr>heap := pre @ OSheet s' # post\<rparr>)"
      then show "store_rows xl (map (\<lambda>(key, v). [VStr key, v]) ((key, v) # its)) = Inl e \<and>
           (\<exists>s'. st' = st\<lparr>heap := pre @ OSheet s' # post\<rparr>)"
        using cs by (auto simp: bind_err_def st1)
    qed
  qed
qed

section \<open>The exports, step by step\<close>

lemma book_state_heap [simp]:
  "heap (book_state st ws s) = heap st @ [OBook [Suc (length (heap st))], OSheet s]"
  "self_workbook (book_state st ws s) = Some (length (heap st))"
  "self_worksheet (book_state st ws s) = ws"
  "files (book_state st ws s) = files st"
  "stdout (book_state st ws s) = stdout st"
  by (simp_all add: book_state_def)

lemma summary_state_heap [simp]:
  "heap (summary_state st d s) = heap st @
     [OBook [Suc (Suc (length (heap st))), Suc (length (heap st))], OSheet d, OSheet s]"
  "self_workbook (summary_state st d s) = Some (length (heap st))"
  "self_worksheet (summary_state st d s) = Some (Suc (length (heap st)))"
  "files (summary_state st d s) = files st"
  "stdout (summary_state st d s) = stdout st"
  by (simp_all add: summary_state_def)

lemma book_state_update [simp]:
  "(book_state st ws s)\<lparr>heap := heap st @ [OBook [Suc (length (heap st))], OSheet s']\<rparr> =
     book_state st ws s'"
  "(book_state st ws s)\<lparr>self_worksheet := ws'\<rparr> = book_state st ws' s"
  by (simp_all add: book_state_def)

lemma summary_state_update [simp]:
  "(summary_state st d s)\<lparr>heap := heap st @
     [OBook [Suc (Suc (length (heap st))), Suc (length (heap st))], OSheet d, OSheet s']\<rparr> =
     summary_state st d s'"
  by (simp add: summary_state_def)

lemma create_workbook_result:
  "create_workbook st =
     Returned () (book_state st (Some (Suc (length (heap st))))
                    ((empty_sheet ''Sheet'')\<lparr>title := ''Image Features''\<rparr>))"
  by (simp add: create_workbook_def Workbook_def and_then_def workbook_active_def set_title_def
      sheet_modify_def sheet_at_def heap_get_def nth_append list_update_append Let_def
      book_state_def)

lemma append_book_ends:
  assumes "pending s = []"
  shows "ends_in (worksheet_append xl (Some (Suc (length (heap st)))) row (book_state st ws s))
     (\<lambda>_ st'. \<exists>cs. store_row xl row = Inr cs \<and>
         st' = book_state st ws (s\<lparr>rows := rows s @ [cs]\<rparr>))
     (\<lambda>e st'. store_row xl row = Inl e \<and> (\<exists>s'. st' = book_state st ws s'))"
  using worksheet_append_ends [where st = "book_state st ws s"
      and pre = "heap st @ [OBook [Suc (length (heap st))]]" and post = "[]" and s = s
      and w = "Suc (length (heap st))" and xl = xl and row = row] assms
  by simp

lemma rows_book_ends:
  assumes "those (map (dict_at (heap st)) refs) = Some ds" and "pending s = []"
  shows "ends_in (append_feature_rows xl (Some (Suc (length (heap st)))) H refs (book_state st ws s))
     (\<lambda>_ st'. \<exists>rws. store_rows xl (map (\<lambda>d. make_row d H) ds) = Inr rws \<and>
         st' = book_state st ws (s\<lparr>rows := rows s @ rws\<rparr>))
     (\<lambda>e st'. store_rows xl (map (\<lambda>d. make_row d H) ds) = Inl e \<and>
         (\<exists>s'. st' = book_state st ws s'))"
  using append_feature_rows_ends [where st = "book_state st ws s"
      and pre = "heap st @ [OBook [Suc (length (heap st))]]" and post = "[]" and s = s
      and w = "Suc (length (heap st))" and xl = xl and H = H and refs = refs and ds = ds]
    assms dicts_at_append [OF assms(1)]
  by simp

lemma items_book_ends:
  assumes "pending s = []"
  shows "ends_in (append_item_rows xl its (book_state st (Some (Suc (length (heap st)))) s))
     (\<lambda>_ st'. \<exists>rws. store_rows xl (map (\<lambda>(key, v). [VStr key, v]) its) = Inr rws \<and>
         st' = book_state st (Some (Suc (length (heap st)))) (s\<lparr>rows := rows s @ rws\<rparr>))
     (\<lambda>e st'. store_rows xl (map (\<lambda>(key, v). [VStr key, v]) its) = Inl e \<and>
         (\<exists>s'. st' = book_state st (Some (Suc (length (heap st)))) s'))"
  using append_item_rows_ends [where st = "book_state st (Some (Suc (length (heap st)))) s"
      and pre = "heap st @ [OBook [Suc (length (heap st))]]" and post = "[]" and s = s
      and w = "Suc (length (heap st))" and xl = xl and its = its] assms
  by simp

text \<open>The end of the two exports of one sheet: the cosmetic passes, the save, the message.\<close>

lemma finish_book:
  "and_then (style_header (book_state st (Some (Suc (length (heap st)))) s)) (\<lambda>_ st1.
   and_then (auto_adjust_column_width st1) (\<lambda>_ st2.
   and_then (workbook_save xl (self_workbook st2) path st2) (\<lambda>_ st3.
   py_print msg st3))) =
   (case save_error xl path [s\<lparr>header_styled := True, widths_adjusted := True\<rparr>] of
      None \<Rightarrow>
        Returned ()
          ((book_state st (Some (Suc (length (heap st))))
              (s\<lparr>header_styled := True, widths_adjusted := True\<rparr>))
             \<lparr>files := (files st)(path \<mapsto>
                 Workbook_file [s\<lparr>header_styled := True, widths_adjusted := True\<rparr>]),
              stdout := stdout st @ [msg]\<rparr>)
    | Some (m, partial) \<Rightarrow>
        Raised (LibError m)
          (if partial
           then (book_state st (Some (Suc (length (heap st))))
                   (s\<lparr>header_styled := True, widths_adjusted := True\<rparr>))
                  \<lparr>files := (files st)(path \<mapsto> Partial_file)\<rparr>
           else book_state st (Some (Suc (length (heap st))))
                   (s\<lparr>header_styled := True, widths_adjusted := True\<rparr>)))"
  by (simp add: style_header_def auto_adjust_column_width_def sheet_modify_def sheet_at_def
        heap_get_def nth_append list_update_append and_then_def workbook_save_def book_sheets_def
        py_print_def book_state_def split: option.splits prod.splits)

lemma finished_sheet_eq:
  "((empty_sheet ''Sheet'')\<lparr>title := t, rows := rws\<rparr>)\<lparr>header_styled := True, widths_adjusted := True\<rparr>
     = finished_sheet t rws"
  "((empty_sheet t)\<lparr>rows := rws\<rparr>)\<lparr>header_styled := True, widths_adjusted := True\<rparr>
     = finished_sheet t rws"
  by (simp_all add: empty_sheet_def finished_sheet_def)

lemma export_empty:
  assumes "list_items (heap st) fl = Some []"
  shows "export_multiple_images xl fl path st = Raised (ValueError ''No features to export'') st"
    and "export_with_summary xl fo fl path st = Raised (ValueError ''No features to export'') st"
  using assms
  by (simp_all add: export_multiple_images_def export_with_summary_def is_empty_list_def and_then_def)

lemma export_multiple_images_ends:
  assumes rr: "read_records (heap st) fl = Some ds" and ne: "ds \<noteq> []"
  shows "ends_in (export_multiple_images xl fl path st)
     (\<lambda>_ st'. \<exists>tbl. store_rows xl (feature_table ds) = Inr tbl \<and>
         save_error xl path [finished_sheet ''Image Features'' tbl] = None \<and>
         st' = (book_state st (Some (Suc (length (heap st))))
                  (finished_sheet ''Image Features'' tbl))
                 \<lparr>files := (files st)(path \<mapsto>
                     Workbook_file [finished_sheet ''Image Features'' tbl]),
                  stdout := stdout st @ [''Excel file saved successfully: '' @ path]\<rparr>)
     (\<lambda>e st'. (\<exists>xs. heap st' = heap st @ xs) \<and>
         (store_rows xl (feature_table ds) = Inl e \<and> files st' = files st \<or>
          (\<exists>tbl m p. store_rows xl (feature_table ds) = Inr tbl \<and>
             save_error xl path [finished_sheet ''Image Features'' tbl] = Some (m, p) \<and>
             e = LibError m)))"
    (is "ends_in _ ?Q ?E")
proof -
  from read_records_SomeD [OF rr] obtain refs where
    li: "list_items (heap st) fl = Some refs" and
    da: "those (map (dict_at (heap st)) refs) = Some ds" and len: "length refs = length ds"
    by blast
  from ne len have refs_ne: "refs \<noteq> []" by auto
  let ?n = "length (heap st)"
  let ?H = "sorted_list_of_set (\<Union>d\<in>set ds. set (dict_keys d))"
  let ?s0 = "(empty_sheet ''Sheet'')\<lparr>title := ''Image Features''\<rparr>"
  let ?ws = "Some (Suc ?n)"
  have p0: "pending ?s0 = []" by (simp add: empty_sheet_def)
  have li1: "list_items (heap (book_state st ?ws s)) fl = Some refs" for s
    using list_items_append [OF li] by simp
  have da1: "those (map (dict_at (heap (book_state st ?ws s))) refs) = Some ds" for s
    using dicts_at_append [OF da] by simp
  have hdr: "compute_headers fl (book_state st ?ws s) = Returned ?H (book_state st ?ws s)" for s
    using li1 [of s] update_all_keys_ok [OF da1 [of s], of "{}"] by (simp add: compute_headers_def)
  define K where "K = (\<lambda>(u::unit) st1.
     and_then (style_header st1) (\<lambda>_ st2.
     and_then (auto_adjust_column_width st2) (\<lambda>_ st3.
     and_then (workbook_save xl (self_workbook st3) path st3) (\<lambda>_ st4.
     py_print (''Excel file saved successfully: '' @ path) st4))))"
  have unf: "export_multiple_images xl fl path st =
     and_then (worksheet_append xl ?ws (map VStr ?H) (book_state st ?ws ?s0)) (\<lambda>_ st1.
     and_then (write_data_rows xl (self_worksheet st1) ?H fl st1) K)"
    unfolding export_multiple_images_def K_def
    using li refs_ne
    by (simp add: is_empty_list_def and_then_def create_workbook_result hdr)
  have tbl: "store_rows xl (feature_table ds) =
     bind_err (store_row xl (map VStr ?H)) (\<lambda>cs.
     bind_err (store_rows xl (map (\<lambda>d. make_row d ?H) ds)) (\<lambda>rws. Inr (cs # rws)))"
    by (simp add: feature_table_def Let_def)
  show ?thesis
    unfolding unf
  proof (rule ends_in_bind [OF append_book_ends [OF p0]])
    fix e st'
    assume "store_row xl (map VStr ?H) = Inl e \<and> (\<exists>s'. st' = book_state st ?ws s')"
    then show "?E e st'" by (auto simp: tbl bind_err_def)
  next
    fix x :: unit and st1
    assume "\<exists>cs. store_row xl (map VStr ?H) = Inr cs \<and>
         st1 = book_state st ?ws (?s0\<lparr>rows := rows ?s0 @ [cs]\<rparr>)"
    then obtain cs where cs: "store_row xl (map VStr ?H) = Inr cs"
      and st1: "st1 = book_state st ?ws (?s0\<lparr>rows := [cs]\<rparr>)"
      by (auto simp: empty_sheet_def)
    let ?s1 = "?s0\<lparr>rows := [cs]\<rparr>"
    have p1: "pending ?s1 = []" by (simp add: empty_sheet_def)
    have wd: "write_data_rows xl (self_worksheet st1) ?H fl st1 =
        append_feature_rows xl ?ws ?H refs (book_state st ?ws ?s1)"
      unfolding st1 using li1 [of ?s1] by (simp add: write_data_rows_def)
    show "ends_in (and_then (write_data_rows xl (self_worksheet st1) ?H fl st1) K) ?Q ?E"
      unfolding wd
    proof (rule ends_in_bind [OF rows_book_ends [OF da p1]])
      fix e st'
      assume "store_rows xl (map (\<lambda>d. make_row d ?H) ds) = Inl e \<and>
         (\<exists>s'. st' = book_state st ?ws s')"
      then show "?E e st'" using cs by (auto simp: tbl bind_err_def)
    next
      fix y :: unit and st2
      assume "\<exists>rws. store_rows xl (map (\<lambda>d. make_row d ?H) ds) = Inr rws \<and>
         st2 = book_state st ?ws (?s1\<lparr>rows := rows ?s1 @ rws\<rparr>)"
      then obtain rws where rws: "store_rows xl (map (\<lambda>d. make_row d ?H) ds) = Inr rws"
        and st2: "st2 = book_state st ?ws (?s0\<lparr>rows := cs # rws\<rparr>)"
        by (auto simp: empty_sheet_def)
      have t: "store_rows xl (feature_table ds) = Inr (cs # rws)"
        using cs rws by (simp add: tbl bind_err_def)
      show "ends_in (K y st2) ?Q ?E"
        unfolding K_def st2 finish_book finished_sheet_eq
        by (cases "save_error xl path [finished_sheet ''Image Features'' (cs # rws)]")
           (auto simp: t)
    qed
  qed
qed

lemma export_single_image_ends:
  assumes da: "dict_at (heap st) features = Some d"
  shows "ends_in (export_single_image xl features path st)
     (\<lambda>_ st'. \<exists>tbl. store_rows xl (item_rows d) = Inr tbl \<and>
         save_error xl path [finished_sheet ''Image Features'' tbl] = None \<and>
         st' = (book_state st (Some (Suc (length (heap st))))
                  (finished_sheet ''Image Features'' tbl))
                 \<lparr>files := (files st)(path \<mapsto>
                     Workbook_file [finished_sheet ''Image Features'' tbl]),
                  stdout := stdout st @ [''Excel file saved successfully: '' @ path]\<rparr>)
     (\<lambda>e st'. (\<exists>xs. heap st' = heap st @ xs) \<and>
         (store_rows xl (item_rows d) = Inl e \<and> files st' = files st \<or>
          (\<exists>tbl m p. store_rows xl (item_rows d) = Inr tbl \<and>
             save_error xl path [finished_sheet ''Image Features'' tbl] = Some (m, p) \<and>
             e = LibError m)))"
    (is "ends_in _ ?Q ?E")
proof -
  let ?n = "length (heap st)"
  let ?s0 = "(empty_sheet ''Sheet'')\<lparr>title := ''Image Features''\<rparr>"
  let ?ws = "Some (Suc ?n)"
  let ?hd = "[VStr ''Feature'', VStr ''Value'']"
  let ?its = "map (\<lambda>(key, v). [VStr key, v]) (dict_items d)"
  have p0: "pending ?s0 = []" by (simp add: empty_sheet_def)
  have da1: "dict_at (heap (book_state st ?ws s)) features = Some d" for s
    using dict_at_append [OF da] by simp
  define K where "K = (\<lambda>(u::unit) st1.
     and_then (style_header st1) (\<lambda>_ st2.
     and_then (auto_adjust_column_width st2) (\<lambda>_ st3.
     and_then (workbook_save xl (self_workbook st3) path st3) (\<lambda>_ st4.
     py_print (''Excel file saved successfully: '' @ path) st4))))"
  have unf: "export_single_image xl features path st =
     and_then (worksheet_append xl ?ws ?hd (book_state st ?ws ?s0)) (\<lambda>_ st1.
     and_then (case dict_at (heap st1) features of
                 None \<Rightarrow> Raised AttributeError st1
               | Some d \<Rightarrow> append_item_rows xl (dict_items d) st1) K)"
    unfolding export_single_image_def K_def
    by (simp add: and_then_def create_workbook_result)
  have tbl: "store_rows xl (item_rows d) =
     bind_err (store_row xl ?hd) (\<lambda>cs.
     bind_err (store_rows xl ?its) (\<lambda>rws. Inr (cs # rws)))"
    by (simp add: item_rows_def)
  show ?thesis
    unfolding unf
  proof (rule ends_in_bind [OF append_book_ends [OF p0]])
    fix e st'
    assume "store_row xl ?hd = Inl e \<and> (\<exists>s'. st' = book_state st ?ws s')"
    then show "?E e st'" by (auto simp: tbl bind_err_def)
  next
    fix x :: unit and st1
    assume "\<exists>cs. store_row xl ?hd = Inr cs \<and>
         st1 = book_state st ?ws (?s0\<lparr>rows := rows ?s0 @ [cs]\<rparr>)"
    then obtain cs where cs: "store_row xl ?hd = Inr cs"
      and st1: "st1 = book_state st ?ws (?s0\<lparr>rows := [cs]\<rparr>)"
      by (auto simp: empty_sheet_def)
    let ?s1 = "?s0\<lparr>rows := [cs]\<rparr>"
    have p1: "pending ?s1 = []" by (simp add: empty_sheet_def)
    have wd: "(case dict_at (heap st1) features of
                 None \<Rightarrow> Raised AttributeError st1
               | Some d \<Rightarrow> append_item_rows xl (dict_items d) st1) =
        append_item_rows xl (dict_items d) (book_state st ?ws ?s1)"
      unfolding st1 using da1 [of ?s1] by simp
    show "ends_in (and_then (case dict_at (heap st1) features of
                 None \<Rightarrow> Raised AttributeError st1
               | Some d \<Rightarrow> append_item_rows xl (dict_items d) st1) K) ?Q ?E"
      unfolding wd
    proof (rule ends_in_bind [OF items_book_ends [OF p1]])
      fix e st'
      assume "store_rows xl ?its = Inl e \<and> (\<exists>s'. st' = book_state st ?ws s')"
      then show "?E e st'" using cs by (auto simp: tbl bind_err_def)
    next
      fix y :: unit and st2
      assume "\<exists>rws. store_rows xl ?its = Inr rws \<and>
         st2 = book_state st ?ws (?s1\<lparr>rows := rows ?s1 @ rws\<rparr>)"
      then obtain rws where rws: "store_rows xl ?its = Inr rws"
        and st2: "st2 = book_state st ?ws (?s0\<lparr>rows := cs # rws\<rparr>)"
        by (auto simp: empty_sheet_def)
      have t: "store_rows xl (item_rows d) = Inr (cs # rws)"
        using cs rws by (simp add: tbl bind_err_def)
      show "ends_in (K y st2) ?Q ?E"
        unfolding K_def st2 finish_book finished_sheet_eq
        by (cases "save_error xl path [finished_sheet ''Image Features'' (cs # rws)]")
           (auto simp: t)
    qed
  qed
qed

lemma append_summary_ends:
  assumes "pending s = []"
  shows "ends_in (worksheet_append xl (Some (Suc (Suc (length (heap st))))) row (summary_state st d s))
     (\<lambda>_ st'. \<exists>cs. store_row xl row = Inr cs \<and>
         st' = summary_state st d (s\<lparr>rows := rows s @ [cs]\<rparr>))
     (\<lambda>e st'. store_row xl row = Inl e \<and> (\<exists>s'. st' = summary_state st d s'))"
  using worksheet_append_ends [where st = "summary_state st d s"
      and pre = "heap st @ [OBook [Suc (Suc (length (heap st))), Suc (length (heap st))], OSheet d]"
      and post = "[]" and s = s
      and w = "Suc (Suc (length (heap st)))" and xl = xl and row = row] assms
  by simp

lemma column_mean_eq:
  "read_records h fl = Some ds \<Longrightarrow> column_mean fo (h @ xs) fl key = mean_val fo ds key"
  by (simp add: column_mean_def mean_val_def bind_err_def read_records_append split: sum.splits)

lemma compute_mean_ends:
  assumes "read_records (heap st) fl = Some ds"
  shows "ends_in (compute_mean fo fl key (summary_state st d s))
     (\<lambda>m st'. mean_val fo ds key = Inr m \<and> st' = summary_state st d s)
     (\<lambda>e st'. mean_val fo ds key = Inl e \<and> st' = summary_state st d s)"
  using column_mean_eq [OF assms, of fo _ key]
  by (cases "mean_val fo ds key") (simp_all add: compute_mean_def)

lemma append_rounded_ends:
  assumes "pending s = []"
  shows "ends_in (append_rounded xl fo (Some (Suc (Suc (length (heap st))))) label m
                    (summary_state st d s))
     (\<lambda>_ st'. \<exists>r. rounded_row xl fo label m = Inr r \<and>
         st' = summary_state st d (s\<lparr>rows := rows s @ [r]\<rparr>))
     (\<lambda>e st'. rounded_row xl fo label m = Inl e \<and> (\<exists>s'. st' = summary_state st d s'))"
proof (cases "py_round_val fo m 2")
  case (Inl e)
  then show ?thesis
    by (auto simp: append_rounded_def rounded_row_def bind_err_def)
next
  case (Inr r)
  show ?thesis
    unfolding append_rounded_def Inr sum.case
    by (rule ends_in_mono [OF append_summary_ends [OF assms]])
       (auto simp: rounded_row_def bind_err_def Inr)
qed

lemma headers_mem:
  "k \<in> set (sorted_list_of_set (\<Union>d\<in>set ds. set (dict_keys d))) \<longleftrightarrow>
   k \<in> (\<Union>d\<in>set (ds :: pydict list). set (dict_keys d))"
  by simp

lemma brightness_stats_ends:
  assumes rr: "read_records (heap st) fl = Some ds" and p: "pending s = []"
  shows "ends_in (brightness_stats xl fo (Some (Suc (Suc (length (heap st)))))
                    (sorted_list_of_set (\<Union>d\<in>set ds. set (dict_keys d))) fl
                    (summary_state st d s))
     (\<lambda>_ st'. \<exists>br. brightness_rows xl fo ds = Inr br \<and>
         st' = summary_state st d (s\<lparr>rows := rows s @ br\<rparr>))
     (\<lambda>e st'. brightness_rows xl fo ds = Inl e \<and> (\<exists>s'. st' = summary_state st d s'))"
proof (cases "''avg_brightness'' \<in> (\<Union>d\<in>set ds. set (dict_keys d))")
  case False
  then show ?thesis
    unfolding brightness_stats_def headers_mem
    by (simp add: brightness_rows_def)
next
  case True
  show ?thesis
    unfolding brightness_stats_def headers_mem if_P [OF True]
  proof (rule ends_in_bind [OF compute_mean_ends [OF rr]])
    fix e st'
    assume "mean_val fo ds ''avg_brightness'' = Inl e \<and> st' = summary_state st d s"
    then show "brightness_rows xl fo ds = Inl e \<and> (\<exists>s'. st' = summary_state st d s')"
      using True by (auto simp: brightness_rows_def bind_err_def)
  next
    fix m st1
    assume "mean_val fo ds ''avg_brightness'' = Inr m \<and> st1 = summary_state st d s"
    then have m: "mean_val fo ds ''avg_brightness'' = Inr m"
      and st1: "st1 = summary_state st d s" by simp_all
    show "ends_in (append_rounded xl fo (Some (Suc (Suc (length (heap st)))))
                     ''Average Brightness'' m st1)
       (\<lambda>_ st'. \<exists>br. brightness_rows xl fo ds = Inr br \<and>
           st' = summary_state st d (s\<lparr>rows := rows s @ br\<rparr>))
       (\<lambda>e st'. brightness_rows xl fo ds = Inl e \<and> (\<exists>s'. st' = summary_state st d s'))"
      unfolding st1
      by (rule ends_in_mono [OF append_rounded_ends [OF p]])
         (use True m in \<open>auto simp: brightness_rows_def bind_err_def\<close>)
  qed
qed

lemma size_stats_ends:
  assumes rr: "read_records (heap st) fl = Some ds" and p: "pending s = []"
  shows "ends_in (size_stats xl fo (Some (Suc (Suc (length (heap st)))))
                    (sorted_list_of_set (\<Union>d\<in>set ds. set (dict_keys d))) fl
                    (summary_state st d s))
     (\<lambda>_ st'. \<exists>sz. size_rows xl fo ds = Inr sz \<and>
         st' = summary_state st d (s\<lparr>rows := rows s @ sz\<rparr>))
     (\<lambda>e st'. size_rows xl fo ds = Inl e \<and> (\<exists>s'. st' = summary_state st d s'))"
    (is "ends_in _ ?Q ?E")
proof (cases "''width'' \<in> (\<Union>d\<in>set ds. set (dict_keys d)) \<and>
              ''height'' \<in> (\<Union>d\<in>set ds. set (dict_keys d))")
  case False
  show ?thesis
    unfolding size_stats_def size_rows_def headers_mem if_not_P [OF False]
    by simp
next
  case True
  let ?ss = "Some (Suc (Suc (length (heap st))))"
  show ?thesis
    unfolding size_stats_def headers_mem if_P [OF True]
  proof (rule ends_in_bind [OF compute_mean_ends [OF rr]])
    fix e st'
    assume "mean_val fo ds ''width'' = Inl e \<and> st' = summary_state st d s"
    then show "?E e st'"
      using True by (auto simp: size_rows_def bind_err_def)
  next
    fix w st1
    assume "mean_val fo ds ''width'' = Inr w \<and> st1 = summary_state st d s"
    then have w: "mean_val fo ds ''width'' = Inr w"
      and st1: "st1 = summary_state st d s" by simp_all
    show "ends_in (and_then (compute_mean fo fl ''height'' st1) (\<lambda>avg_height st.
            and_then (append_rounded xl fo ?ss ''Average Width'' w st) (\<lambda>_ st.
            append_rounded xl fo ?ss ''Average Height'' avg_height st))) ?Q ?E"
      unfolding st1
    proof (rule ends_in_bind [OF compute_mean_ends [OF rr]])
      fix e st'
      assume "mean_val fo ds ''height'' = Inl e \<and> st' = summary_state st d s"
      then show "?E e st'"
        using True w by (auto simp: size_rows_def bind_err_def)
    next
      fix h st2
      assume "mean_val fo ds ''height'' = Inr h \<and> st2 = summary_state st d s"
      then have h: "mean_val fo ds ''height'' = Inr h"
        and st2: "st2 = summary_state st d s" by simp_all
      show "ends_in (and_then (append_rounded xl fo ?ss ''Average Width'' w st2) (\<lambda>_ st.
              append_rounded xl fo ?ss ''Average Height'' h st)) ?Q ?E"
        unfolding st2
      proof (rule ends_in_bind [OF append_rounded_ends [OF p]])
        fix e st'
        assume "rounded_row xl fo ''Average Width'' w = Inl e \<and>
           (\<exists>s'. st' = summary_state st d s')"
        then show "?E e st'"
          using True w h by (auto simp: size_rows_def bind_err_def)
      next
        fix x :: unit and st3
        assume "\<exists>r. rounded_row xl fo ''Average Width'' w = Inr r \<and>
           st3 = summary_state st d (s\<lparr>rows := rows s @ [r]\<rparr>)"
        then obtain r1 where r1: "rounded_row xl fo ''Average Width'' w = Inr r1"
          and st3: "st3 = summary_state st d (s\<lparr>rows := rows s @ [r1]\<rparr>)" by blast
        have p3: "pending (s\<lparr>rows := rows s @ [r1]\<rparr>) = []" using p by simp
        show "ends_in (append_rounded xl fo ?ss ''Average Height'' h st3) ?Q ?E"
          unfolding st3
          by (rule ends_in_mono [OF append_rounded_ends [OF p3]])
             (use True w h r1 in \<open>auto simp: size_rows_def bind_err_def\<close>)
      qed
    qed
  qed
qed

lemma list_len_ends:
  assumes "read_records (heap st) fl = Some ds"
  shows "ends_in (list_len fl (summary_state st d s))
     (\<lambda>v st'. v = VInt (int (length ds)) \<and> st' = summary_state st d s)
     (\<lambda>e st'. False)"
proof -
  from read_records_SomeD [OF assms] obtain refs where
    li: "list_items (heap st) fl = Some refs" and len: "length refs = length ds"
    by blast
  show ?thesis
    using list_items_append [OF li] len by (simp add: list_len_def)
qed

text \<open>The rows of the summary sheet, from the first \<open>append\<close> to \<open>size_stats\<close>.\<close>

lemma summary_block_ends:
  assumes rr: "read_records (heap st) fl = Some ds" and p: "pending s = []"
    and K: "\<And>srows. summary_rows xl fo ds = Inr srows \<Longrightarrow>
              ends_in (K () (summary_state st d (s\<lparr>rows := rows s @ srows\<rparr>))) Q E"
    and E: "\<And>e s'. summary_rows xl fo ds = Inl e \<Longrightarrow> E e (summary_state st d s')"
  shows "ends_in
     (and_then (worksheet_append xl (Some (Suc (Suc (length (heap st)))))
                  [VStr ''Summary'', VStr ''''] (summary_state st d s)) (\<lambda>_ st1.
      and_then (list_len fl st1) (\<lambda>n st2.
      and_then (worksheet_append xl (Some (Suc (Suc (length (heap st)))))
                  [VStr ''Total Images Processed'', n] st2) (\<lambda>_ st3.
      and_then (brightness_stats xl fo (Some (Suc (Suc (length (heap st)))))
                  (sorted_list_of_set (\<Union>d\<in>set ds. set (dict_keys d))) fl st3) (\<lambda>_ st4.
      and_then (size_stats xl fo (Some (Suc (Suc (length (heap st)))))
                  (sorted_list_of_set (\<Union>d\<in>set ds. set (dict_keys d))) fl st4) K)))))
     Q E"
proof -
  let ?ss = "Some (Suc (Suc (length (heap st))))"
  let ?H = "sorted_list_of_set (\<Union>d\<in>set ds. set (dict_keys d))"
  let ?r1 = "[VStr ''Summary'', VStr '''']"
  let ?r2 = "[VStr ''Total Images Processed'', VInt (int (length ds))]"
  show ?thesis
  proof (rule ends_in_bind [OF append_summary_ends [OF p]])
    fix e st'
    assume "store_row xl ?r1 = Inl e \<and> (\<exists>s'. st' = summary_state st d s')"
    then show "E e st'" by (auto simp: summary_rows_def bind_err_def intro!: E)
  next
    fix x :: unit and st1
    assume "\<exists>cs. store_row xl ?r1 = Inr cs \<and>
       st1 = summary_state st d (s\<lparr>rows := rows s @ [cs]\<rparr>)"
    then obtain c1 where c1: "store_row xl ?r1 = Inr c1"
      and st1: "st1 = summary_state st d (s\<lparr>rows := rows s @ [c1]\<rparr>)" by blast
    let ?s1 = "s\<lparr>rows := rows s @ [c1]\<rparr>"
    have p1: "pending ?s1 = []" using p by simp
    show "ends_in (and_then (list_len fl st1) (\<lambda>n st2.
      and_then (worksheet_append xl ?ss [VStr ''Total Images Processed'', n] st2) (\<lambda>_ st3.
      and_then (brightness_stats xl fo ?ss ?H fl st3) (\<lambda>_ st4.
      and_then (size_stats xl fo ?ss ?H fl st4) K)))) Q E"
      unfolding st1
    proof (rule ends_in_bind [OF list_len_ends [OF rr]])
      fix e st'
      assume False
      then show "E e st'" ..
    next
      fix n st2
      assume "n = VInt (int (length ds)) \<and> st2 = summary_state st d ?s1"
      then have n: "n = VInt (int (length ds))" and st2: "st2 = summary_state st d ?s1"
        by simp_all
      show "ends_in (and_then (worksheet_append xl ?ss [VStr ''Total Images Processed'', n] st2)
         (\<lambda>_ st3.
          and_then (brightness_stats xl fo ?ss ?H fl st3) (\<lambda>_ st4.
          and_then (size_stats xl fo ?ss ?H fl st4) K))) Q E"
        unfolding n st2
      proof (rule ends_in_bind [OF append_summary_ends [OF p1]])
        fix e st'
        assume "store_row xl ?r2 = Inl e \<and> (\<exists>s'. st' = summary_state st d s')"
        then show "E e st'" using c1 by (auto simp: summary_rows_def bind_err_def intro!: E)
      next
        fix y :: unit and st3
        assume "\<exists>cs. store_row xl ?r2 = Inr cs \<and>
           st3 = summary_state st d (?s1\<lparr>rows := rows ?s1 @ [cs]\<rparr>)"
        then obtain c2 where c2: "store_row xl ?r2 = Inr c2"
          and st3: "st3 = summary_state st d (s\<lparr>rows := rows s @ [c1, c2]\<rparr>)" by auto
        let ?s3 = "s\<lparr>rows := rows s @ [c1, c2]\<rparr>"
        have p3: "pending ?s3 = []" using p by simp
        show "ends_in (and_then (brightness_stats xl fo ?ss ?H fl st3) (\<lambda>_ st4.
          and_then (size_stats xl fo ?ss ?H fl st4) K)) Q E"
          unfolding st3
        proof (rule ends_in_bind [OF brightness_stats_ends [OF rr p3]])
          fix e st'
          assume "brightness_rows xl fo ds = Inl e \<and> (\<exists>s'. st' = summary_state st d s')"
          then show "E e st'"
            using c1 c2 by (auto simp: summary_rows_def bind_err_def intro!: E)
        next
          fix z :: unit and st4
          assume "\<exists>br. brightness_rows xl fo ds = Inr br \<and>
             st4 = summary_state st d (?s3\<lparr>rows := rows ?s3 @ br\<rparr>)"
          then obtain br where br: "brightness_rows xl fo ds = Inr br"
            and st4: "st4 = summary_state st d (s\<lparr>rows := rows s @ [c1, c2] @ br\<rparr>)" by auto
          let ?s4 = "s\<lparr>rows := rows s @ [c1, c2] @ br\<rparr>"
          have p4: "pending ?s4 = []" using p by simp
          show "ends_in (and_then (size_stats xl fo ?ss ?H fl st4) K) Q E"
            unfolding st4
          proof (rule ends_in_bind [OF size_stats_ends [OF rr p4]])
            fix e st'
            assume "size_rows xl fo ds = Inl e \<and> (\<exists>s'. st' = summary_state st d s')"
            then show "E e st'"
              using c1 c2 br by (auto simp: summary_rows_def bind_err_def intro!: E)
          next
            fix u :: unit and st5
            assume "\<exists>sz. size_rows xl fo ds = Inr sz \<and>
               st5 = summary_state st d (?s4\<lparr>rows := rows ?s4 @ sz\<rparr>)"
            then obtain sz where sz: "size_rows xl fo ds = Inr sz"
              and st5: "st5 = summary_state st d (s\<lparr>rows := rows s @ ([c1, c2] @ br @ sz)\<rparr>)"
              by auto
            have sr: "summary_rows xl fo ds = Inr ([c1, c2] @ br @ sz)"
              using c1 c2 br sz by (simp add: summary_rows_def bind_err_def)
            show "ends_in (K u st5) Q E"
              unfolding st5 using K [OF sr] by simp
          qed
        qed
      qed
    qed
  qed
qed

lemma book_state_self:
  "st\<lparr>heap := heap st @ [OBook [Suc (length (heap st))], OSheet s],
      self_workbook := Some (length (heap st))\<rparr> = book_state st (self_worksheet st) s"
  by (cases st) (simp add: book_state_def)

lemma finish_summary:
  "and_then (style_header ((summary_state st d s)
               \<lparr>self_worksheet := Some (Suc (Suc (length (heap st))))\<rparr>)) (\<lambda>_ st1.
   and_then (auto_adjust_column_width st1) (\<lambda>_ st2.
   and_then (workbook_save xl (self_workbook st2) path st2) (\<lambda>_ st3.
   py_print msg st3))) =
   (case save_error xl path [s\<lparr>header_styled := True, widths_adjusted := True\<rparr>, d] of
      None \<Rightarrow>
        Returned ()
          ((summary_state st d (s\<lparr>header_styled := True, widths_adjusted := True\<rparr>))
             \<lparr>self_worksheet := Some (Suc (Suc (length (heap st)))),
              files := (files st)(path \<mapsto>
                 Workbook_file [s\<lparr>header_styled := True, widths_adjusted := True\<rparr>, d]),
              stdout := stdout st @ [msg]\<rparr>)
    | Some (m, partial) \<Rightarrow>
        Raised (LibError m)
          (if partial
           then (summary_state st d (s\<lparr>header_styled := True, widths_adjusted := True\<rparr>))
                  \<lparr>self_worksheet := Some (Suc (Suc (length (heap st)))),
                   files := (files st)(path \<mapsto> Partial_file)\<rparr>
           else (summary_state st d (s\<lparr>header_styled := True, widths_adjusted := True\<rparr>))
                  \<lparr>self_worksheet := Some (Suc (Suc (length (heap st))))\<rparr>))"
  by (simp add: style_header_def auto_adjust_column_width_def sheet_modify_def sheet_at_def
        heap_get_def nth_append list_update_append and_then_def workbook_save_def book_sheets_def
        py_print_def summary_state_def split: option.splits prod.splits)

lemma export_with_summary_ends:
  assumes rr: "read_records (heap st) fl = Some ds" and ne: "ds \<noteq> []"
  shows "ends_in (export_with_summary xl fo fl path st)
     (\<lambda>_ st'. \<exists>tbl srows. store_rows xl (feature_table ds) = Inr tbl \<and>
         summary_rows xl fo ds = Inr srows \<and>
         save_error xl path
           [finished_sheet ''Summary'' srows, finished_sheet ''Image Data'' tbl] = None \<and>
         st' = (summary_state st (finished_sheet ''Image Data'' tbl)
                  (finished_sheet ''Summary'' srows))
                 \<lparr>self_worksheet := Some (Suc (Suc (length (heap st)))),
                  files := (files st)(path \<mapsto>
                     Workbook_file [finished_sheet ''Summary'' srows,
                                    finished_sheet ''Image Data'' tbl]),
                  stdout := stdout st @
                     [''Excel file with summary saved successfully: '' @ path]\<rparr>)
     (\<lambda>e st'. (\<exists>xs. heap st' = heap st @ xs) \<and>
         (store_rows xl (feature_table ds) = Inl e \<and> files st' = files st \<or>
          (\<exists>tbl. store_rows xl (feature_table ds) = Inr tbl \<and>
             summary_rows xl fo ds = Inl e \<and> files st' = files st) \<or>
          (\<exists>tbl srows m p. store_rows xl (feature_table ds) = Inr tbl \<and>
             summary_rows xl fo ds = Inr srows \<and>
             save_error xl path
               [finished_sheet ''Summary'' srows, finished_sheet ''Image Data'' tbl]
               = Some (m, p) \<and>
             e = LibError m)))"
    (is "ends_in _ ?Q ?E")
proof -
  from read_records_SomeD [OF rr] obtain refs where
    li: "list_items (heap st) fl = Some refs" and
    da: "those (map (dict_at (heap st)) refs) = Some ds" and len: "length refs = length ds"
    by blast
  from ne len have refs_ne: "refs \<noteq> []" by auto
  let ?n = "length (heap st)"
  let ?H = "sorted_list_of_set (\<Union>d\<in>set ds. set (dict_keys d))"
  let ?s0 = "(empty_sheet ''Sheet'')\<lparr>title := ''Image Data''\<rparr>"
  let ?ws = "Some (Suc ?n)"
  let ?ss = "Some (Suc (Suc ?n))"
  let ?w0 = "self_worksheet st"
  let ?msg = "''Excel file with summary saved successfully: '' @ path"
  have p0: "pending ?s0 = []" by (simp add: empty_sheet_def)
  have li1: "list_items (heap (book_state st w s)) fl = Some refs" for s w
    using list_items_append [OF li] by simp
  have da1: "those (map (dict_at (heap (book_state st w s))) refs) = Some ds" for s w
    using dicts_at_append [OF da] by simp
  have hdr: "compute_headers fl (book_state st w s) = Returned ?H (book_state st w s)" for s w
    using li1 [of w s] update_all_keys_ok [OF da1 [of w s], of "{}"]
    by (simp add: compute_headers_def)
  have start: "and_then (Workbook st) (\<lambda>b st.
       let st = st\<lparr>self_workbook := Some b\<rparr> in
     and_then (workbook_active (self_workbook st) st) (\<lambda>data_sheet st.
     and_then (set_title data_sheet ''Image Data'' st) (\<lambda>_ st. K data_sheet st))) =
     K ?ws (book_state st ?w0 ?s0)" for K :: "addr option \<Rightarrow> pystate \<Rightarrow> unit outcome"
    unfolding book_state_self [symmetric]
    apply (simp add: Workbook_def and_then_def workbook_active_def set_title_def
      sheet_modify_def sheet_at_def heap_get_def nth_append list_update_append Let_def)
    apply (rule arg_cong [where f = "K (Some (Suc (length (heap st))))"])
    apply simp
    done
  define K3 where "K3 = (\<lambda>(u::unit) st5.
       let st5 = st5\<lparr>self_worksheet := ?ss\<rparr> in
     and_then (style_header st5) (\<lambda>_ st6.
     and_then (auto_adjust_column_width st6) (\<lambda>_ st7.
     and_then (workbook_save xl (self_workbook st7) path st7) (\<lambda>_ st8.
     py_print ?msg st8))))"
  define K2 where "K2 = (\<lambda>summary_sheet st0.
     and_then (worksheet_append xl summary_sheet [VStr ''Summary'', VStr ''''] st0) (\<lambda>_ st1.
     and_then (list_len fl st1) (\<lambda>n st2.
     and_then (worksheet_append xl summary_sheet [VStr ''Total Images Processed'', n] st2) (\<lambda>_ st3.
     and_then (brightness_stats xl fo summary_sheet ?H fl st3) (\<lambda>_ st4.
     and_then (size_stats xl fo summary_sheet ?H fl st4) (\<lambda>u st5.
       let st5 = st5\<lparr>self_worksheet := summary_sheet\<rparr> in
     and_then (style_header st5) (\<lambda>_ st6.
     and_then (auto_adjust_column_width st6) (\<lambda>_ st7.
     and_then (workbook_save xl (self_workbook st7) path st7) (\<lambda>_ st8.
     py_print ?msg st8)))))))))"
  define K1 where "K1 = (\<lambda>(u::unit) st2.
       let st2 = st2\<lparr>self_worksheet := ?ws\<rparr> in
     and_then (style_header st2) (\<lambda>_ st3.
     and_then (auto_adjust_column_width st3) (\<lambda>_ st4.
     and_then (create_sheet (self_workbook st4) ''Summary'' 0 st4) K2)))"
  have unf: "export_with_summary xl fo fl path st =
     and_then (worksheet_append xl ?ws (map VStr ?H) (book_state st ?w0 ?s0)) (\<lambda>_ st1.
     and_then (write_data_rows xl ?ws ?H fl st1) K1)"
    unfolding export_with_summary_def K1_def K2_def
    using li refs_ne
    apply (simp add: is_empty_list_def)
    apply (subst and_then_def [of "Returned False st"])
    apply (simp only: outcome.case if_False)
    apply (subst start)
    apply (subst and_then_def [of "compute_headers fl (book_state st ?w0 ?s0)"])
    apply (simp only: hdr outcome.case)
    apply (simp add: Let_def)
    done
  have tbl: "store_rows xl (feature_table ds) =
     bind_err (store_row xl (map VStr ?H)) (\<lambda>cs.
     bind_err (store_rows xl (map (\<lambda>d. make_row d ?H) ds)) (\<lambda>rws. Inr (cs # rws)))"
    by (simp add: feature_table_def Let_def)
  have mid: "K1 u (book_state st ?w0 (?s0\<lparr>rows := rws\<rparr>)) =
     K2 ?ss (summary_state st (finished_sheet ''Image Data'' rws) (empty_sheet ''Summary''))"
    for rws u
    unfolding K1_def finished_sheet_eq [symmetric]
    apply (simp add: style_header_def auto_adjust_column_width_def sheet_modify_def sheet_at_def
        heap_get_def nth_append list_update_append and_then_def create_sheet_def Let_def)
    apply (rule arg_cong [where f = "K2 (Some (Suc (Suc (length (heap st)))))"])
    apply (simp add: summary_state_def book_state_def)
    done
  have pS: "pending (empty_sheet ''Summary'') = []" by (simp add: empty_sheet_def)
  show ?thesis
    unfolding unf
  proof (rule ends_in_bind [OF append_book_ends [OF p0]])
    fix e st'
    assume "store_row xl (map VStr ?H) = Inl e \<and> (\<exists>s'. st' = book_state st ?w0 s')"
    then show "?E e st'" by (auto simp: tbl bind_err_def)
  next
    fix x :: unit and st1
    assume "\<exists>cs. store_row xl (map VStr ?H) = Inr cs \<and>
         st1 = book_state st ?w0 (?s0\<lparr>rows := rows ?s0 @ [cs]\<rparr>)"
    then obtain cs where cs: "store_row xl (map VStr ?H) = Inr cs"
      and st1: "st1 = book_state st ?w0 (?s0\<lparr>rows := [cs]\<rparr>)"
      by (auto simp: empty_sheet_def)
    let ?s1 = "?s0\<lparr>rows := [cs]\<rparr>"
    have p1: "pending ?s1 = []" by (simp add: empty_sheet_def)
    have wd: "write_data_rows xl ?ws ?H fl st1 =
        append_feature_rows xl ?ws ?H refs (book_state st ?w0 ?s1)"
      unfolding st1 using li1 [of ?w0 ?s1] by (simp add: write_data_rows_def)
    show "ends_in (and_then (write_data_rows xl ?ws ?H fl st1) K1) ?Q ?E"
      unfolding wd
    proof (rule ends_in_bind [OF rows_book_ends [OF da p1]])
      fix e st'
      assume "store_rows xl (map (\<lambda>d. make_row d ?H) ds) = Inl e \<and>
         (\<exists>s'. st' = book_state st ?w0 s')"
      then show "?E e st'" using cs by (auto simp: tbl bind_err_def)
    next
      fix y :: unit and st2
      assume "\<exists>rws. store_rows xl (map (\<lambda>d. make_row d ?H) ds) = Inr rws \<and>
         st2 = book_state st ?w0 (?s1\<lparr>rows := rows ?s1 @ rws\<rparr>)"
      then obtain rws where rws: "store_rows xl (map (\<lambda>d. make_row d ?H) ds) = Inr rws"
        and st2: "st2 = book_state st ?w0 (?s0\<lparr>rows := cs # rws\<rparr>)"
        by (auto simp: empty_sheet_def)
      have t: "store_rows xl (feature_table ds) = Inr (cs # rws)"
        using cs rws by (simp add: tbl bind_err_def)
      let ?D = "finished_sheet ''Image Data'' (cs # rws)"
      show "ends_in (K1 y st2) ?Q ?E"
        unfolding st2 mid K2_def
      proof (rule summary_block_ends [OF rr pS])
        fix e s'
        assume "summary_rows xl fo ds = Inl e"
        then show "?E e (summary_state st ?D s')" using t by simp
      next
        fix srows
        assume sr: "summary_rows xl fo ds = Inr srows"
        show "ends_in
          (let st5 = (summary_state st ?D
                        ((empty_sheet ''Summary'')\<lparr>rows := rows (empty_sheet ''Summary'') @ srows\<rparr>))
                       \<lparr>self_worksheet := ?ss\<rparr> in
           and_then (style_header st5) (\<lambda>_ st6.
           and_then (auto_adjust_column_width st6) (\<lambda>_ st7.
           and_then (workbook_save xl (self_workbook st7) path st7) (\<lambda>_ st8.
           py_print ?msg st8)))) ?Q ?E"
          unfolding Let_def finish_summary
          by (cases "save_error xl path [finished_sheet ''Summary'' srows, ?D]")
             (auto simp: t sr empty_sheet_def finished_sheet_def)
      qed
    qed
  qed
qed

section \<open>What the exports return, raise and leave unchanged\<close>











text \<open>Multi-record export: when it returns, when it raises inside \<open>append\<close>.\<close>

lemma export_multiple_images_returns:
  assumes rr: "read_records (heap st) fl = Some ds" and ne: "ds \<noteq> []"
    and t: "store_rows xl (feature_table ds) = Inr tbl"
    and s: "save_error xl path [finished_sheet ''Image Features'' tbl] = None"
  shows "export_multiple_images xl fl path st =
     Returned ()
       ((book_state st (Some (Suc (length (heap st)))) (finished_sheet ''Image Features'' tbl))
          \<lparr>files := (files st)(path \<mapsto> Workbook_file [finished_sheet ''Image Features'' tbl]),
           stdout := stdout st @ [''Excel file saved successfully: '' @ path]\<rparr>)"
  using export_multiple_images_ends [OF rr ne, of xl path] t s
  by (cases "export_multiple_images xl fl path st") auto

lemma export_multiple_images_ReturnedD:
  assumes rr: "read_records (heap st) fl = Some ds" and ne: "ds \<noteq> []"
    and ret: "export_multiple_images xl fl path st = Returned u st'"
  shows "\<exists>tbl. store_rows xl (feature_table ds) = Inr tbl \<and>
     files st' path = Some (Workbook_file [finished_sheet ''Image Features'' tbl])"
  using export_multiple_images_ends [OF rr ne, of xl path] ret by auto

lemma export_multiple_images_refused:
  assumes rr: "read_records (heap st) fl = Some ds" and ne: "ds \<noteq> []"
    and t: "store_rows xl (feature_table ds) = Inl e"
  shows "export_multiple_images xl fl path st =
           Raised e (final_state (export_multiple_images xl fl path st)) \<and>
         files (final_state (export_multiple_images xl fl path st)) = files st"
  using export_multiple_images_ends [OF rr ne, of xl path] t
  by (cases "export_multiple_images xl fl path st") (auto simp: final_state_def)

lemma export_multiple_images_frame:
  assumes rr: "read_records (heap st) fl = Some ds"
  shows "\<exists>xs. heap (final_state (export_multiple_images xl fl path st)) = heap st @ xs"
proof (cases "ds = []")
  case True
  with rr have "list_items (heap st) fl = Some []" by (simp add: read_records_Nil)
  from export_empty(1) [OF this, of xl path] show ?thesis by (simp add: final_state_def)
next
  case False
  show ?thesis
    by (rule ends_in_final [where P = "\<lambda>st'. \<exists>xs. heap st' = heap st @ xs"])
       (rule ends_in_mono [OF export_multiple_images_ends [OF rr False]], auto)
qed





lemma export_with_summary_frame:
  assumes rr: "read_records (heap st) fl = Some ds"
  shows "\<exists>xs. heap (final_state (export_with_summary xl fo fl path st)) = heap st @ xs"
proof (cases "ds = []")
  case True
  with rr have "list_items (heap st) fl = Some []" by (simp add: read_records_Nil)
  from export_empty(2) [OF this, of xl fo path] show ?thesis by (simp add: final_state_def)
next
  case False
  show ?thesis
    by (rule ends_in_final [where P = "\<lambda>st'. \<exists>xs. heap st' = heap st @ xs"])
       (rule ends_in_mono [OF export_with_summary_ends [OF rr False]], auto)
qed


text \<open>Single-record export.\<close>

lemma export_single_image_returns:
  assumes da: "dict_at (heap st) features = Some d"
    and t: "store_rows xl (item_rows d) = Inr tbl"
    and s: "save_error xl path [finished_sheet ''Image Features'' tbl] = None"
  shows "export_single_image xl features path st =
     Returned ()
       ((book_state st (Some (Suc (length (heap st)))) (finished_sheet ''Image Features'' tbl))
          \<lparr>files := (files st)(path \<mapsto> Workbook_file [finished_sheet ''Image Features'' tbl]),
           stdout := stdout st @ [''Excel file saved successfully: '' @ path]\<rparr>)"
  using export_single_image_ends [OF da, of xl path] t s
  by (cases "export_single_image xl features path st") auto

lemma export_single_image_ReturnedD:
  assumes da: "dict_at (heap st) features = Some d"
    and ret: "export_single_image xl features path st = Returned u st'"
  shows "\<exists>tbl. store_rows xl (item_rows d) = Inr tbl \<and>
     files st' path = Some (Workbook_file [finished_sheet ''Image Features'' tbl])"
  using export_single_image_ends [OF da, of xl path] ret by auto

lemma export_single_image_refused:
  assumes da: "dict_at (heap st) features = Some d"
    and t: "store_rows xl (item_rows d) = Inl e"
  shows "export_single_image xl features path st =
           Raised e (final_state (export_single_image xl features path st)) \<and>
         files (final_state (export_single_image xl features path st)) = files st"
  using export_single_image_ends [OF da, of xl path] t
  by (cases "export_single_image xl features path st") (auto simp: final_state_def)

lemma export_single_image_frame:
  assumes da: "dict_at (heap st) features = Some d"
  shows "\<exists>xs. heap (final_state (export_single_image xl features path st)) = heap st @ xs"
  by (rule ends_in_final [where P = "\<lambda>st'. \<exists>xs. heap st' = heap st @ xs"])
     (rule ends_in_mono [OF export_single_image_ends [OF da]], auto)

section \<open>The example library and the example records\<close>

lemma openpyxl_keeps:
  "length s \<le> 32767 \<Longrightarrow> \<not> list_ex illegal_character s \<Longrightarrow>
   check_string openpyxl_lib s = Inr s"
  by (simp add: openpyxl_lib_def)

lemma openpyxl_refuses:
  "length s \<le> 32767 \<Longrightarrow> list_ex illegal_character s \<Longrightarrow>
   check_string openpyxl_lib s = Inl (s @ '' cannot be used in worksheets.'')"
  by (simp add: openpyxl_lib_def)

lemma openpyxl_saves:
  "list_all (\<lambda>ws. list_all (list_all int_fits_float) (rows ws @ [pending ws])) sheets \<Longrightarrow>
   save_error openpyxl_lib path sheets = None"
  by (simp add: openpyxl_lib_def)


lemma round_half_even_int: "round_half_even (of_int i) = i"
  by (simp add: round_half_even_def)

lemma example_round:
  "float_round example_floats (Finite 5) 2 = Finite 5"
  "float_round example_floats (Finite 150) 2 = Finite 150"
  "float_round example_floats (Finite 75) 2 = Finite 75"
  "float_round example_floats (Finite 2) 2 = Finite 2"
  "float_round example_floats (Finite 10) 2 = Finite 10"
  using round_half_even_int [of 500] round_half_even_int [of 15000] round_half_even_int [of 7500]
    round_half_even_int [of 200] round_half_even_int [of 1000]
  by (simp_all add: example_floats_def)

lemma example_read: "read_records (heap example_state) 2 = Some example_records"
  by (simp add: example_state_def example_records_def read_records_def list_items_def
      dict_at_def heap_get_def)

lemma example_keys:
  "(\<Union>d\<in>set example_records. set (dict_keys d)) = {''avg_brightness'', ''height'', ''width''}"
  by (auto simp: example_records_def dict_keys_def)

lemma example_headers:
  "sorted_list_of_set (\<Union>d\<in>set example_records. set (dict_keys d)) =
     [''avg_brightness'', ''height'', ''width'']"
  unfolding example_keys by simp

lemma example_table:
  "feature_table example_records =
     [[VStr ''avg_brightness'', VStr ''height'', VStr ''width''],
      [VInt 10, VInt 50, VInt 100],
      [VStr '''', VInt 100, VInt 200]]"
  unfolding feature_table_def Let_def example_headers
  by (simp add: example_records_def make_row_def dict_get_def)

lemma example_table_stored:
  "store_rows openpyxl_lib (feature_table example_records) = Inr (feature_table example_records)"
  unfolding example_table
  by (simp add: store_row_def cell_value_def bind_err_def openpyxl_keeps illegal_character_def)


lemma example_multi_returns:
  "export_multiple_images openpyxl_lib 2 ''out.xlsx'' example_state =
     Returned ()
       ((book_state example_state (Some 4)
           (finished_sheet ''Image Features'' (feature_table example_records)))
          \<lparr>files := (files example_state)(''out.xlsx'' \<mapsto>
              Workbook_file [finished_sheet ''Image Features'' (feature_table example_records)]),
           stdout := stdout example_state @ [''Excel file saved successfully: '' @ ''out.xlsx'']\<rparr>)"
proof -
  have ne: "example_records \<noteq> []" by (simp add: example_records_def)
  have sv: "save_error openpyxl_lib ''out.xlsx''
      [finished_sheet ''Image Features'' (feature_table example_records)] = None"
    by (rule openpyxl_saves) (simp add: example_table finished_sheet_def int_fits_float_def)
  have n: "Suc (length (heap example_state)) = 4" by (simp add: example_state_def)
  from export_multiple_images_returns [OF example_read ne example_table_stored sv]
  show ?thesis unfolding n .
qed






text \<open>The record of the two-page scan.\<close>

lemma scan_read: "read_records (heap scan_state) 1 = Some [scan_record]"
  by (simp add: scan_state_def read_records_def list_items_def dict_at_def heap_get_def)

lemma scan_keys:
  "(\<Union>d\<in>set [scan_record]. set (dict_keys d)) =
     {''avg_brightness'', ''extracted_text'', ''image_path''}"
  by (auto simp: scan_record_def dict_keys_def)

lemma scan_table:
  "feature_table [scan_record] =
     [[VStr ''avg_brightness'', VStr ''extracted_text'', VStr ''image_path''],
      [VFloat (Finite 10), VStr two_pages, VStr ''scan.png'']]"
proof -
  have "sorted_list_of_set (\<Union>d\<in>set [scan_record]. set (dict_keys d)) =
      [''avg_brightness'', ''extracted_text'', ''image_path'']"
    unfolding scan_keys by simp
  then show ?thesis
    unfolding feature_table_def Let_def
    by (simp add: scan_record_def make_row_def dict_get_def)
qed

lemma two_pages_refused:
  "check_string openpyxl_lib two_pages = Inl (two_pages @ '' cannot be used in worksheets.'')"
  by (rule openpyxl_refuses) (simp_all add: two_pages_def illegal_character_def)

lemma scan_table_refused:
  "store_rows openpyxl_lib (feature_table [scan_record]) =
     Inl (LibError (two_pages @ '' cannot be used in worksheets.''))"
  unfolding scan_table
  by (simp add: store_row_def cell_value_def bind_err_def openpyxl_keeps illegal_character_def
      two_pages_refused)

lemma scan_items_refused:
  "store_rows openpyxl_lib (item_rows scan_record) =
     Inl (LibError (two_pages @ '' cannot be used in worksheets.''))"
  by (simp add: item_rows_def scan_record_def dict_items_def store_row_def cell_value_def
      bind_err_def openpyxl_keeps illegal_character_def two_pages_refused)

section \<open>Multi-record export\<close>

lemma finished_cell_at:
  "cell_at (finished_sheet t tbl) r c =
     (if 1 \<le> r \<and> r \<le> length tbl \<and> 1 \<le> c \<and> c \<le> length (tbl ! (r - 1))
      then Some (tbl ! (r - 1) ! (c - 1)) else None)"
  by (auto simp: cell_at_def finished_sheet_def)

lemma finished_sheet_rows [simp]: "rows (finished_sheet t rws) = rws"
  by (simp add: finished_sheet_def)

lemma stored_table:
  assumes "store_rows xl rs = Inr tbl"
  shows "length tbl = length rs"
    and "i < length rs \<Longrightarrow> length (tbl ! i) = length (rs ! i)"
    and "i < length rs \<Longrightarrow> j < length (rs ! i) \<Longrightarrow> cell_value xl (rs ! i ! j) = Inr (tbl ! i ! j)"
proof -
  from store_rows_Inr [OF assms] have l: "length tbl = length rs"
    and r: "\<forall>i<length rs. store_row xl (rs ! i) = Inr (tbl ! i)" by simp_all
  show "length tbl = length rs" by (rule l)
  show "length (tbl ! i) = length (rs ! i)" if "i < length rs"
    using r that store_row_Inr [of xl "rs ! i" "tbl ! i"] by simp
  show "cell_value xl (rs ! i ! j) = Inr (tbl ! i ! j)" if "i < length rs" "j < length (rs ! i)"
    using r that store_row_Inr [of xl "rs ! i" "tbl ! i"] by simp
qed

lemma feature_table_rows:
  "length (feature_table ds) = Suc (length ds)"
  "i < Suc (length ds) \<Longrightarrow>
     length (feature_table ds ! i) = length (sorted_list_of_set (\<Union>d\<in>set ds. set (dict_keys d)))"
  "j < length (sorted_list_of_set (\<Union>d\<in>set ds. set (dict_keys d))) \<Longrightarrow>
     feature_table ds ! 0 ! j = VStr (sorted_list_of_set (\<Union>d\<in>set ds. set (dict_keys d)) ! j)"
  "i < length ds \<Longrightarrow> j < length (sorted_list_of_set (\<Union>d\<in>set ds. set (dict_keys d))) \<Longrightarrow>
     feature_table ds ! Suc i ! j =
       (case map_of (ds ! i) (sorted_list_of_set (\<Union>d\<in>set ds. set (dict_keys d)) ! j) of
          Some v \<Rightarrow> v | None \<Rightarrow> VStr '''')"
  by (cases i; simp add: feature_table_def Let_def make_row_def dict_get_def)+

text \<open>
  Claim C1 as stated fails: not every non-empty list of records is exported. The list of
  the one record of a two-page scan, whose text holds a form feed: openpyxl refuses the
  text, \<open>export_multiple_images\<close> raises what \<open>append\<close> raises, and no file is written.
  The source gives every value to \<open>append\<close> as it is.
\<close>

theorem scan_multi_export_raises:
  "read_records (heap scan_state) 1 = Some [scan_record] \<and>
   export_multiple_images openpyxl_lib 1 ''out.xlsx'' scan_state =
     Raised (LibError (two_pages @ '' cannot be used in worksheets.''))
       (final_state (export_multiple_images openpyxl_lib 1 ''out.xlsx'' scan_state)) \<and>
   files (final_state (export_multiple_images openpyxl_lib 1 ''out.xlsx'' scan_state))
     ''out.xlsx'' = None"
proof -
  have ne: "[scan_record] \<noteq> []" by simp
  from export_multiple_images_refused [OF scan_read ne scan_table_refused, of "''out.xlsx''"]
    scan_read
  show ?thesis by (simp add: scan_state_def)
qed

text \<open>
  Claim C1, amended. Whenever \<open>export_multiple_images\<close> returns for a non-empty list of N
  records, the file it saved holds one sheet. Its cells are exactly those of the rows 1
  to N + 1 and the columns 1 to the number of headers, the headers being the sorted,
  duplicate-free list of the union of the records' keys (no cell at all when no record
  has a key). Row 1 holds the headers; row \<open>i + 2\<close> holds record \<open>i\<close>: under header \<open>j\<close> the
  record's value for that key when the record has the key and the empty string otherwise.
  Each cell holds what openpyxl keeps of the value given to it: a number as it is, a text
  as \<open>check_string\<close> returns it.
\<close>

theorem multi_export_table:
  assumes "read_records (heap st) features_list = Some ds" and "ds \<noteq> []"
    and "export_multiple_images xl features_list path st = Returned () st'"
  shows "\<exists>sheet headers.
     files st' path = Some (Workbook_file [sheet]) \<and>
     sorted headers \<and> distinct headers \<and>
     set headers = (\<Union>d\<in>set ds. set (dict_keys d)) \<and>
     (\<forall>r c. (\<exists>v. cell_at sheet r c = Some v) \<longleftrightarrow>
        (1 \<le> r \<and> r \<le> Suc (length ds) \<and> 1 \<le> c \<and> c \<le> length headers)) \<and>
     (\<forall>j<length headers.
        \<exists>k. cell_at sheet 1 (Suc j) = Some k \<and> cell_value xl (VStr (headers ! j)) = Inr k) \<and>
     (\<forall>i<length ds. \<forall>j<length headers.
        \<exists>v. cell_at sheet (Suc (Suc i)) (Suc j) = Some v \<and>
            cell_value xl
              (case map_of (ds ! i) (headers ! j) of Some x \<Rightarrow> x | None \<Rightarrow> VStr '''') = Inr v)"
proof -
  let ?H = "sorted_list_of_set (\<Union>d\<in>set ds. set (dict_keys d))"
  from export_multiple_images_ReturnedD [OF assms] obtain tbl where
    t: "store_rows xl (feature_table ds) = Inr tbl"
    and f: "files st' path = Some (Workbook_file [finished_sheet ''Image Features'' tbl])"
    by blast
  let ?sheet = "finished_sheet ''Image Features'' tbl"
  have fin: "finite (\<Union>d\<in>set ds. set (dict_keys d))" by simp
  have srt: "sorted ?H" "distinct ?H" by simp_all
  have st: "set ?H = (\<Union>d\<in>set ds. set (dict_keys d))"
    by (rule set_sorted_list_of_set [OF fin])
  have len: "length tbl = Suc (length ds)"
    using stored_table(1) [OF t] by (simp add: feature_table_rows(1))
  have rowlen: "length (tbl ! i) = length ?H" if "i < Suc (length ds)" for i
    using stored_table(2) [OF t, of i] that by (simp add: feature_table_rows(1,2))
  have cell: "cell_value xl (feature_table ds ! i ! j) = Inr (tbl ! i ! j)"
    if "i < Suc (length ds)" "j < length ?H" for i j
    using stored_table(3) [OF t, of i j] that by (simp add: feature_table_rows(1,2))
  have dom: "\<forall>r c. (\<exists>v. cell_at ?sheet r c = Some v) \<longleftrightarrow>
        (1 \<le> r \<and> r \<le> Suc (length ds) \<and> 1 \<le> c \<and> c \<le> length ?H)"
  proof (intro allI)
    fix r c
    show "(\<exists>v. cell_at ?sheet r c = Some v) \<longleftrightarrow>
        (1 \<le> r \<and> r \<le> Suc (length ds) \<and> 1 \<le> c \<and> c \<le> length ?H)"
    proof (cases "1 \<le> r \<and> r \<le> Suc (length ds)")
      case True
      then have "r - 1 < Suc (length ds)" by arith
      from rowlen [OF this] True show ?thesis
        by (simp add: finished_cell_at len)
    next
      case False
      then show ?thesis by (auto simp: finished_cell_at len)
    qed
  qed
  have hd: "\<forall>j<length ?H.
        \<exists>k. cell_at ?sheet 1 (Suc j) = Some k \<and> cell_value xl (VStr (?H ! j)) = Inr k"
  proof (intro allI impI)
    fix j assume j: "j < length ?H"
    from rowlen [of 0] j have "cell_at ?sheet 1 (Suc j) = Some (tbl ! 0 ! j)"
      by (simp add: finished_cell_at len)
    moreover from cell [of 0 j] j have "cell_value xl (VStr (?H ! j)) = Inr (tbl ! 0 ! j)"
      by (simp add: feature_table_rows(3))
    ultimately show "\<exists>k. cell_at ?sheet 1 (Suc j) = Some k \<and>
        cell_value xl (VStr (?H ! j)) = Inr k" by blast
  qed
  have body: "\<forall>i<length ds. \<forall>j<length ?H.
        \<exists>v. cell_at ?sheet (Suc (Suc i)) (Suc j) = Some v \<and>
            cell_value xl
              (case map_of (ds ! i) (?H ! j) of Some x \<Rightarrow> x | None \<Rightarrow> VStr '''') = Inr v"
  proof (intro allI impI)
    fix i j assume i: "i < length ds" and j: "j < length ?H"
    from rowlen [of "Suc i"] i j
    have "cell_at ?sheet (Suc (Suc i)) (Suc j) = Some (tbl ! Suc i ! j)"
      by (simp add: finished_cell_at len)
    moreover from cell [of "Suc i" j] i j
    have "cell_value xl (case map_of (ds ! i) (?H ! j) of Some x \<Rightarrow> x | None \<Rightarrow> VStr '''')
        = Inr (tbl ! Suc i ! j)"
      by (simp add: feature_table_rows(4))
    ultimately show "\<exists>v. cell_at ?sheet (Suc (Suc i)) (Suc j) = Some v \<and>
            cell_value xl
              (case map_of (ds ! i) (?H ! j) of Some x \<Rightarrow> x | None \<Rightarrow> VStr '''') = Inr v"
      by blast
  qed
  from f srt st dom hd body show ?thesis by blast
qed

theorem multi_export_table_witness:
  "read_records (heap example_state) 2 = Some example_records \<and> example_records \<noteq> [] \<and>
   export_multiple_images openpyxl_lib 2 ''out.xlsx'' example_state =
     Returned () (final_state (export_multiple_images openpyxl_lib 2 ''out.xlsx'' example_state)) \<and>
   (\<exists>sheet.
      files (final_state (export_multiple_images openpyxl_lib 2 ''out.xlsx'' example_state))
        ''out.xlsx'' = Some (Workbook_file [sheet]) \<and>
      rows sheet =
       [[VStr ''avg_brightness'', VStr ''height'', VStr ''width''],
        [VInt 10, VInt 50, VInt 100],
        [VStr '''', VInt 100, VInt 200]] \<and>
      cell_at sheet 1 3 = Some (VStr ''width'') \<and>
      cell_at sheet 3 1 = Some (VStr '''') \<and>
      cell_at sheet 3 3 = Some (VInt 200) \<and>
      cell_at sheet 4 1 = None \<and> cell_at sheet 1 4 = None)"
proof -
  let ?r = "export_multiple_images openpyxl_lib 2 ''out.xlsx'' example_state"
  have h1: "read_records (heap example_state) 2 = Some example_records" by (rule example_read)
  have h2: "example_records \<noteq> []" by (simp add: example_records_def)
  have h3: "?r = Returned () (final_state ?r)"
    by (simp add: example_multi_returns final_state_def)
  from multi_export_table [OF h1 h2 h3] obtain sheet where
    fl: "files (final_state ?r) ''out.xlsx'' = Some (Workbook_file [sheet])"
    by blast
  from fl have "sheet = finished_sheet ''Image Features'' (feature_table example_records)"
    by (simp add: example_multi_returns final_state_def)
  then have "rows sheet =
       [[VStr ''avg_brightness'', VStr ''height'', VStr ''width''],
        [VInt 10, VInt 50, VInt 100],
        [VStr '''', VInt 100, VInt 200]] \<and>
      cell_at sheet 1 3 = Some (VStr ''width'') \<and>
      cell_at sheet 3 1 = Some (VStr '''') \<and>
      cell_at sheet 3 3 = Some (VInt 200) \<and>
      cell_at sheet 4 1 = None \<and> cell_at sheet 1 4 = None"
    by (simp add: example_table finished_cell_at)
  with h1 h2 h3 fl show ?thesis by blast
qed

section \<open>Summary export\<close>














section \<open>Single-record export and the frame of the exports\<close>

lemma store_pair_Inr:
  "store_row xl [a, b] = Inr cs \<Longrightarrow>
   \<exists>a' b'. cs = [a', b'] \<and> cell_value xl a = Inr a' \<and> cell_value xl b = Inr b'"
  by (auto simp: store_row_def split: sum.splits prod.splits)

lemma map_of_nth_distinct:
  "distinct (map fst d) \<Longrightarrow> i < length d \<Longrightarrow> map_of d (fst (d ! i)) = Some (snd (d ! i))"
  by (simp add: map_of_eq_Some_iff)

text \<open>
  Claim C9 as stated fails: not every record is exported. The record of the two-page scan:
  openpyxl refuses its text, \<open>export_single_image\<close> raises what \<open>append\<close> raises, and no
  file is written.
\<close>

theorem scan_single_export_raises:
  "dict_at (heap scan_state) 0 = Some scan_record \<and>
   export_single_image openpyxl_lib 0 ''out.xlsx'' scan_state =
     Raised (LibError (two_pages @ '' cannot be used in worksheets.''))
       (final_state (export_single_image openpyxl_lib 0 ''out.xlsx'' scan_state)) \<and>
   files (final_state (export_single_image openpyxl_lib 0 ''out.xlsx'' scan_state))
     ''out.xlsx'' = None"
proof -
  have da: "dict_at (heap scan_state) 0 = Some scan_record"
    by (simp add: scan_state_def dict_at_def heap_get_def)
  from export_single_image_refused [OF da scan_items_refused, of "''out.xlsx''"] da
  show ?thesis by (simp add: scan_state_def)
qed

text \<open>
  Claim C9, amended. Whenever \<open>export_single_image\<close> returns for a record (a dict, whose
  keys are distinct), the file it saved holds one sheet: its first row is made of
  "Feature" and "Value", and one row follows per key of the record, in the order in
  which the record holds its keys, made of the key and the record's value for it. Each
  cell holds what openpyxl keeps of the value given to it: a number as it is, a text as
  \<open>check_string\<close> returns it.
\<close>

theorem single_export_rows:
  assumes "dict_at (heap st) features = Some d" and "wf_dict d"
    and "export_single_image xl features path st = Returned () st'"
  shows "\<exists>sheet.
     files st' path = Some (Workbook_file [sheet]) \<and>
     length (rows sheet) = Suc (length (dict_keys d)) \<and>
     (\<exists>f v. rows sheet ! 0 = [f, v] \<and>
        cell_value xl (VStr ''Feature'') = Inr f \<and> cell_value xl (VStr ''Value'') = Inr v) \<and>
     (\<forall>i<length (dict_keys d).
        \<exists>v k' v'. map_of d (dict_keys d ! i) = Some v \<and>
            rows sheet ! Suc i = [k', v'] \<and>
            cell_value xl (VStr (dict_keys d ! i)) = Inr k' \<and> cell_value xl v = Inr v')"
proof -
  from export_single_image_ReturnedD [OF assms(1,3)] obtain tbl where
    t: "store_rows xl (item_rows d) = Inr tbl"
    and f: "files st' path = Some (Workbook_file [finished_sheet ''Image Features'' tbl])"
    by blast
  let ?sheet = "finished_sheet ''Image Features'' tbl"
  from store_rows_Inr [OF t] have len: "length tbl = Suc (length d)"
    and row: "\<forall>i<Suc (length d). store_row xl (item_rows d ! i) = Inr (tbl ! i)"
    by (simp_all add: item_rows_def dict_items_def)
  have l: "length (rows ?sheet) = Suc (length (dict_keys d))"
    using len by (simp add: dict_keys_def)
  from row have "store_row xl [VStr ''Feature'', VStr ''Value''] = Inr (tbl ! 0)"
    by (auto simp: item_rows_def)
  from store_pair_Inr [OF this]
  have hd: "\<exists>f v. rows ?sheet ! 0 = [f, v] \<and>
        cell_value xl (VStr ''Feature'') = Inr f \<and> cell_value xl (VStr ''Value'') = Inr v"
    by simp
  have body: "\<forall>i<length (dict_keys d).
        \<exists>v k' v'. map_of d (dict_keys d ! i) = Some v \<and>
            rows ?sheet ! Suc i = [k', v'] \<and>
            cell_value xl (VStr (dict_keys d ! i)) = Inr k' \<and> cell_value xl v = Inr v'"
  proof (intro allI impI)
    fix i assume "i < length (dict_keys d)"
    then have i: "i < length d" by (simp add: dict_keys_def)
    from assms(2) have "distinct (map fst d)" by (simp add: wf_dict_def dict_keys_def)
    from map_of_nth_distinct [OF this i] i
    have m: "map_of d (dict_keys d ! i) = Some (snd (d ! i))" by (simp add: dict_keys_def)
    from row i have "store_row xl (item_rows d ! Suc i) = Inr (tbl ! Suc i)" by simp
    with i have "store_row xl [VStr (dict_keys d ! i), snd (d ! i)] = Inr (tbl ! Suc i)"
      by (simp add: item_rows_def dict_items_def dict_keys_def case_prod_beta)
    from store_pair_Inr [OF this] m
    show "\<exists>v k' v'. map_of d (dict_keys d ! i) = Some v \<and>
            rows ?sheet ! Suc i = [k', v'] \<and>
            cell_value xl (VStr (dict_keys d ! i)) = Inr k' \<and> cell_value xl v = Inr v'"
      by auto
  qed
  from f l hd body show ?thesis by blast
qed

theorem single_export_rows_witness:
  "dict_at (heap single_state) 0 =
     Some [(''image_path'', VStr ''a.png''), (''width'', VInt 100), (''height'', VInt 50)] \<and>
   export_single_image openpyxl_lib 0 ''out.xlsx'' single_state =
     Returned () (final_state (export_single_image openpyxl_lib 0 ''out.xlsx'' single_state)) \<and>
   (\<exists>sheet.
      files (final_state (export_single_image openpyxl_lib 0 ''out.xlsx'' single_state))
        ''out.xlsx'' = Some (Workbook_file [sheet]) \<and>
      rows sheet = [[VStr ''Feature'', VStr ''Value''],
                    [VStr ''image_path'', VStr ''a.png''],
                    [VStr ''width'', VInt 100],
                    [VStr ''height'', VInt 50]])"
proof -
  let ?d = "[(''image_path'', VStr ''a.png''), (''width'', VInt 100), (''height'', VInt 50)]"
  let ?tbl = "[[VStr ''Feature'', VStr ''Value''],
                    [VStr ''image_path'', VStr ''a.png''],
                    [VStr ''width'', VInt 100],
                    [VStr ''height'', VInt 50]]"
  let ?r = "export_single_image openpyxl_lib 0 ''out.xlsx'' single_state"
  have h1: "dict_at (heap single_state) 0 = Some ?d"
    by (simp add: single_state_def dict_at_def heap_get_def)
  have h2: "wf_dict ?d" by (simp add: wf_dict_def dict_keys_def)
  have t: "store_rows openpyxl_lib (item_rows ?d) = Inr ?tbl"
    by (simp add: item_rows_def dict_items_def store_row_def cell_value_def bind_err_def
        openpyxl_keeps illegal_character_def)
  have sv: "save_error openpyxl_lib ''out.xlsx'' [finished_sheet ''Image Features'' ?tbl] = None"
    by (rule openpyxl_saves) (simp add: finished_sheet_def int_fits_float_def)
  note ret = export_single_image_returns [OF h1 t sv]
  have h3: "?r = Returned () (final_state ?r)"
    by (simp add: ret final_state_def)
  from single_export_rows [OF h1 h2 h3] obtain sheet where
    fl: "files (final_state ?r) ''out.xlsx'' = Some (Workbook_file [sheet])"
    by blast
  from fl have "sheet = finished_sheet ''Image Features'' ?tbl"
    by (simp add: ret final_state_def)
  then have "rows sheet = ?tbl" by simp
  with h1 h3 fl show ?thesis by blast
qed

text \<open>
  Claim C10. Every object that exists before a call of \<open>export_single_image\<close>,
  \<open>export_multiple_images\<close> or \<open>export_with_summary\<close> is the same after it, whether the call
  returns or raises: the heap after the call is the heap before it, followed by the
  objects the call allocated. In particular the list passed in holds the same references
  and every record holds the same keys and values, in the same order.
\<close>

theorem exports_leave_records_unchanged:
  "(dict_at (heap st) features = Some d \<longrightarrow>
      (\<exists>xs. heap (final_state (export_single_image xl features path st)) = heap st @ xs) \<and>
      dict_at (heap (final_state (export_single_image xl features path st))) features = Some d) \<and>
   (read_records (heap st) features_list = Some ds \<longrightarrow>
      (\<exists>xs. heap (final_state (export_multiple_images xl features_list path st)) = heap st @ xs) \<and>
      list_items (heap (final_state (export_multiple_images xl features_list path st))) features_list
        = list_items (heap st) features_list \<and>
      read_records (heap (final_state (export_multiple_images xl features_list path st))) features_list
        = Some ds \<and>
      (\<exists>xs. heap (final_state (export_with_summary xl fo features_list path st)) = heap st @ xs) \<and>
      list_items (heap (final_state (export_with_summary xl fo features_list path st))) features_list
        = list_items (heap st) features_list \<and>
      read_records (heap (final_state (export_with_summary xl fo features_list path st))) features_list
        = Some ds)"
proof (intro conjI impI)
  assume da: "dict_at (heap st) features = Some d"
  from export_single_image_frame [OF da, of xl path] obtain xs where
    x: "heap (final_state (export_single_image xl features path st)) = heap st @ xs" by blast
  from x show "\<exists>xs. heap (final_state (export_single_image xl features path st)) = heap st @ xs"
    by blast
  show "dict_at (heap (final_state (export_single_image xl features path st))) features = Some d"
    unfolding x by (rule dict_at_append [OF da])
next
  assume rr: "read_records (heap st) features_list = Some ds"
  from export_multiple_images_frame [OF rr, of xl path] obtain xs where
    m: "heap (final_state (export_multiple_images xl features_list path st)) = heap st @ xs"
    by blast
  from export_with_summary_frame [OF rr, of xl fo path] obtain ys where
    s: "heap (final_state (export_with_summary xl fo features_list path st)) = heap st @ ys"
    by blast
  from m show "\<exists>xs. heap (final_state (export_multiple_images xl features_list path st)) = heap st @ xs"
    by blast
  from s show "\<exists>xs. heap (final_state (export_with_summary xl fo features_list path st)) = heap st @ xs"
    by blast
  show "list_items (heap (final_state (export_multiple_images xl features_list path st))) features_list
        = list_items (heap st) features_list"
    by (rule frame_reads(1) [OF m rr])
  show "read_records (heap (final_state (export_multiple_images xl features_list path st))) features_list
        = Some ds"
    by (rule frame_reads(2) [OF m rr])
  show "list_items (heap (final_state (export_with_summary xl fo features_list path st))) features_list
        = list_items (heap st) features_list"
    by (rule frame_reads(1) [OF s rr])
  show "read_records (heap (final_state (export_with_summary xl fo features_list path st))) features_list
        = Some ds"
    by (rule frame_reads(2) [OF s rr])
qed

theorem exports_leave_records_unchanged_witness:
  "dict_at (heap (final_state (export_single_image openpyxl_lib 0 ''out.xlsx'' single_state))) 0 =
     Some [(''image_path'', VStr ''a.png''), (''width'', VInt 100), (''height'', VInt 50)] \<and>
   list_items (heap (final_state (export_multiple_images openpyxl_lib 2 ''out.xlsx''
                                    example_state))) 2 = Some [0, 1] \<and>
   read_records (heap (final_state (export_multiple_images openpyxl_lib 2 ''out.xlsx''
                                      example_state))) 2 = Some example_records \<and>
   list_items (heap (final_state (export_with_summary openpyxl_lib example_floats 2 ''out.xlsx''
                                    example_state))) 2 = Some [0, 1] \<and>
   read_records (heap (final_state (export_with_summary openpyxl_lib example_floats 2 ''out.xlsx''
                                      example_state))) 2 = Some example_records \<and>
   read_records (heap (final_state (export_with_summary openpyxl_lib example_floats 1 ''out.xlsx''
                                      scan_state))) 1 = Some [scan_record]"
proof -
  let ?d = "[(''image_path'', VStr ''a.png''), (''width'', VInt 100), (''height'', VInt 50)]"
  have h1: "dict_at (heap single_state) 0 = Some ?d"
    by (simp add: single_state_def dict_at_def heap_get_def)
  have h2: "read_records (heap example_state) 2 = Some example_records" by (rule example_read)
  have li: "list_items (heap example_state) 2 = Some [0, 1]"
    by (simp add: example_state_def list_items_def heap_get_def)
  from exports_leave_records_unchanged [where st = single_state and features = 0 and d = ?d
      and path = "''out.xlsx''" and xl = openpyxl_lib] h1
  have a: "dict_at (heap (final_state (export_single_image openpyxl_lib 0 ''out.xlsx''
              single_state))) 0 = Some ?d"
    by simp
  from exports_leave_records_unchanged [where st = example_state and features_list = 2
      and ds = example_records and path = "''out.xlsx''" and xl = openpyxl_lib
      and fo = example_floats] h2 li
  have b: "list_items (heap (final_state (export_multiple_images openpyxl_lib 2 ''out.xlsx''
                                    example_state))) 2 = Some [0, 1] \<and>
   read_records (heap (final_state (export_multiple_images openpyxl_lib 2 ''out.xlsx''
                                      example_state))) 2 = Some example_records \<and>
   list_items (heap (final_state (export_with_summary openpyxl_lib example_floats 2 ''out.xlsx''
                                    example_state))) 2 = Some [0, 1] \<and>
   read_records (heap (final_state (export_with_summary openpyxl_lib example_floats 2 ''out.xlsx''
                                      example_state))) 2 = Some example_records"
    by simp
  from exports_leave_records_unchanged [where st = scan_state and features_list = 1
      and ds = "[scan_record]" and path = "''out.xlsx''" and xl = openpyxl_lib
      and fo = example_floats] scan_read
  have c: "read_records (heap (final_state (export_with_summary openpyxl_lib example_floats 1
              ''out.xlsx'' scan_state))) 1 = Some [scan_record]"
    by simp
  from a b c show ?thesis by blast
qed

section \<open>Feature extraction\<close>

lemma dec_digit: "n < 10 \<Longrightarrow> dec n = [digit_char n]"
  by (subst dec.simps) simp

lemma dec_small: "dec 1 = ''1''" "dec 2 = ''2''" "dec 3 = ''3''"
  "dec (Suc 0) = ''1''" "dec (Suc (Suc 0)) = ''2''" "dec (Suc (Suc (Suc 0))) = ''3''"
  by (simp_all add: dec_digit digit_char_def)

lemma dec_example: "dec 12 = ''12''" "dec 34 = ''34''" "dec 56 = ''56''"
  by (simp_all add: dec.simps [of 12] dec.simps [of 34] dec.simps [of 56] dec_digit digit_char_def)

lemma map_of_dict_set: "map_of (dict_set d k v) = (map_of d)(k \<mapsto> v)"
  by (induction d) (auto simp: fun_eq_iff)

lemma dict_keys_dict_set:
  "dict_keys (dict_set d k v) = (if k \<in> set (dict_keys d) then dict_keys d else dict_keys d @ [k])"
  by (induction d) (force simp: dict_keys_def)+


text \<open>
  Claim C8. \<open>extract_text\<close> returns a string for every path and every behaviour of the two
  OCR primitives. When \<open>Image.open\<close> raises, or when \<open>image_to_string\<close> raises, the result
  is the text "Error extracting text: " followed by \<open>str(e)\<close>; otherwise it is the
  recognised text, stripped.
\<close>

theorem extract_text_never_raises:
  "(\<exists>s. extract_text env image_path = Inr s) \<and>
   (pil_open env image_path = Inl m \<longrightarrow>
      extract_text env image_path = Inr (''Error extracting text: '' @ m)) \<and>
   (pil_open env image_path = Inr img \<and> image_to_string env img = Inl m \<longrightarrow>
      extract_text env image_path = Inr (''Error extracting text: '' @ m)) \<and>
   (pil_open env image_path = Inr img \<and> image_to_string env img = Inr t \<longrightarrow>
      extract_text env image_path = Inr (py_strip t))"
  by (auto simp: extract_text_def try_ocr_def split: sum.splits)

lemma py_strip_hello: "py_strip '' hello '' = ''hello''"
  by (simp add: py_strip_def py_isspace_def)

theorem extract_text_never_raises_witness:
  "extract_text example_env ''missing.png'' =
     Inr ''Error extracting text: cannot identify image file'' \<and>
   extract_text example_env ''flat.png'' = Inr ''Error extracting text: tesseract failed'' \<and>
   extract_text example_env ''a.png'' = Inr ''hello''"
proof -
  have a: "pil_open example_env ''missing.png'' = Inl ''cannot identify image file''"
    by (simp add: example_env_def)
  have b: "pil_open example_env ''a.png'' = Inr example_image \<and>
           image_to_string example_env example_image = Inr '' hello ''"
    by (simp add: example_env_def)
  have c: "pil_open example_env ''flat.png'' = Inr flat_image \<and>
           image_to_string example_env flat_image = Inl ''tesseract failed''"
    by (simp add: example_env_def example_image_def flat_image_def)
  from extract_text_never_raises [of example_env "''missing.png''" "''cannot identify image file''"] a
  have 1: "extract_text example_env ''missing.png'' =
     Inr ''Error extracting text: cannot identify image file''"
    by simp
  from extract_text_never_raises [of example_env "''a.png''" _ example_image "'' hello ''"] b
  have 2: "extract_text example_env ''a.png'' = Inr ''hello''"
    by (simp add: py_strip_hello)
  from extract_text_never_raises [of example_env "''flat.png''" "''tesseract failed''" flat_image] c
  have 3: "extract_text example_env ''flat.png'' = Inr ''Error extracting text: tesseract failed''"
    by simp
  from 1 2 3 show ?thesis by blast
qed

lemma get_image_properties_ok:
  assumes "cv2_imread env p = Some img" "shape img = h # w # rest" "h \<noteq> 0"
    "os_path_getsize env p = Inr file_size"
    "int_truediv fo (int file_size) 1024 = Some kb"
    "int_truediv fo (int w) (int h) = Some q"
  shows "get_image_properties fo env p = Inr (properties_of fo h w rest kb q)"
  using assms
  by (simp add: get_image_properties_def load_image_def bind_err_def lib_call_def Let_def
      properties_of_def)

lemma get_image_properties_zero:
  assumes "cv2_imread env p = Some img" "shape img = 0 # w # rest"
  shows "get_image_properties fo env p =
     (case os_path_getsize env p of
        Inl m \<Rightarrow> Inl (LibError m)
      | Inr n \<Rightarrow> (case int_truediv fo (int n) 1024 of
                   None \<Rightarrow> Inl OverflowError
                 | Some kb \<Rightarrow> Inl ZeroDivisionError))"
  using assms
  by (simp add: get_image_properties_def load_image_def bind_err_def lib_call_def Let_def
      split: sum.splits option.splits)

lemma get_image_properties_InrD:
  assumes "get_image_properties fo env p = Inr props"
  shows "\<exists>img h w rest file_size kb q.
     cv2_imread env p = Some img \<and> shape img = h # w # rest \<and> h \<noteq> 0 \<and>
     os_path_getsize env p = Inr file_size \<and>
     int_truediv fo (int file_size) 1024 = Some kb \<and>
     int_truediv fo (int w) (int h) = Some q \<and>
     props = properties_of fo h w rest kb q"
proof -
  from assms obtain img where img: "cv2_imread env p = Some img"
    by (auto simp: get_image_properties_def load_image_def bind_err_def split: option.splits)
  from assms img obtain h w rest where sh: "shape img = h # w # rest"
    by (auto simp: get_image_properties_def load_image_def bind_err_def split: list.splits)
  have h: "h \<noteq> 0"
  proof
    assume "h = 0"
    with sh have "shape img = 0 # w # rest" by simp
    from get_image_properties_zero [OF img this, of fo] assms show False
      by (simp split: sum.splits option.splits)
  qed
  from assms img sh obtain file_size where fs: "os_path_getsize env p = Inr file_size"
    by (cases "os_path_getsize env p")
       (auto simp: get_image_properties_def load_image_def bind_err_def lib_call_def Let_def)
  from assms img sh fs obtain kb where kb: "int_truediv fo (int file_size) 1024 = Some kb"
    by (cases "int_truediv fo (int file_size) 1024")
       (auto simp: get_image_properties_def load_image_def bind_err_def lib_call_def Let_def)
  from assms img sh fs kb h obtain q where q: "int_truediv fo (int w) (int h) = Some q"
    by (cases "int_truediv fo (int w) (int h)")
       (auto simp: get_image_properties_def load_image_def bind_err_def lib_call_def Let_def)
  from get_image_properties_ok [OF img sh h fs kb q] assms
  have "props = properties_of fo h w rest kb q" by simp
  with img sh h fs kb q show ?thesis by blast
qed

lemma extract_text_Inr: "\<exists>t. extract_text env p = Inr t"
  by (auto simp: extract_text_def split: sum.splits)

lemma extract_all_features_props_fail:
  assumes "get_image_properties fo env p = Inl e"
  shows "extract_all_features fo env p = Inl e"
proof -
  from extract_text_Inr obtain t where "extract_text env p = Inr t" by blast
  with assms show ?thesis
    by (simp add: extract_all_features_def bind_err_def Let_def)
qed

text \<open>
  Claim C6. When the image loads with a height other than 0 (its file size can be read
  and the two true divisions stay in the range of a float, as they do for every image that
  fits in memory), \<open>get_image_properties\<close> returns a dictionary whose \<open>aspect_ratio\<close> is
  \<open>round(width / height, 2)\<close>: Python's \<open>round\<close> of Python's quotient of the two ints. When
  the image loads with height 0, \<open>get_image_properties\<close> raises: the division raises
  \<open>ZeroDivisionError\<close>, which the source does not catch (the specification files this
  failure under DecodeError), and \<open>extract_all_features\<close> raises the same exception and
  returns no record.
\<close>

theorem aspect_ratio_or_failure:
  "(cv2_imread env p = Some img \<and> shape img = h # w # rest \<and> h \<noteq> 0 \<and>
    os_path_getsize env p = Inr file_size \<and>
    int_truediv fo (int file_size) 1024 = Some kb \<and>
    int_truediv fo (int w) (int h) = Some q \<longrightarrow>
      (\<exists>props. get_image_properties fo env p = Inr props \<and>
         map_of props ''aspect_ratio'' = Some (VFloat (float_round fo q 2)))) \<and>
   (cv2_imread env p = Some img \<and> shape img = 0 # w # rest \<longrightarrow>
      (\<exists>e. get_image_properties fo env p = Inl e \<and> extract_all_features fo env p = Inl e) \<and>
      (os_path_getsize env p = Inr file_size \<and>
       int_truediv fo (int file_size) 1024 = Some kb \<longrightarrow>
         get_image_properties fo env p = Inl ZeroDivisionError \<and>
         extract_all_features fo env p = Inl ZeroDivisionError))"
proof (intro conjI impI)
  assume a: "cv2_imread env p = Some img \<and> shape img = h # w # rest \<and> h \<noteq> 0 \<and>
    os_path_getsize env p = Inr file_size \<and>
    int_truediv fo (int file_size) 1024 = Some kb \<and>
    int_truediv fo (int w) (int h) = Some q"
  then have a1: "cv2_imread env p = Some img" and a2: "shape img = h # w # rest"
    and a3: "h \<noteq> 0" and a4: "os_path_getsize env p = Inr file_size"
    and a5: "int_truediv fo (int file_size) 1024 = Some kb"
    and a6: "int_truediv fo (int w) (int h) = Some q"
    by simp_all
  have "get_image_properties fo env p = Inr (properties_of fo h w rest kb q)"
    by (rule get_image_properties_ok [OF a1 a2 a3 a4 a5 a6])
  then show "\<exists>props. get_image_properties fo env p = Inr props \<and>
         map_of props ''aspect_ratio'' = Some (VFloat (float_round fo q 2))"
    by (simp add: properties_of_def)
next
  assume a: "cv2_imread env p = Some img \<and> shape img = 0 # w # rest"
  then have b1: "cv2_imread env p = Some img" and b2: "shape img = 0 # w # rest"
    by simp_all
  note z = get_image_properties_zero [OF b1 b2, of fo]
  then obtain e where e: "get_image_properties fo env p = Inl e"
    by (cases "os_path_getsize env p"; cases "int_truediv fo (int (projr (os_path_getsize env p))) 1024")
       simp_all
  with extract_all_features_props_fail [OF e]
  show "\<exists>e. get_image_properties fo env p = Inl e \<and> extract_all_features fo env p = Inl e"
    by blast
  assume fs: "os_path_getsize env p = Inr file_size \<and>
       int_truediv fo (int file_size) 1024 = Some kb"
  with z have g: "get_image_properties fo env p = Inl ZeroDivisionError" by simp
  then show "get_image_properties fo env p = Inl ZeroDivisionError" .
  from extract_all_features_props_fail [OF g]
  show "extract_all_features fo env p = Inl ZeroDivisionError" .
qed

lemma example_truediv:
  "int_truediv example_floats 2048 1024 = Some (Finite 2)"
  "int_truediv example_floats 100 50 = Some (Finite 2)"
  by (simp_all add: example_floats_def)

theorem aspect_ratio_or_failure_witness:
  "get_image_properties example_floats example_env ''a.png'' =
     Inr [(''width'', VInt 100), (''height'', VInt 50), (''channels'', VInt 3),
          (''file_size_kb'', VFloat (Finite 2)), (''aspect_ratio'', VFloat (Finite 2)),
          (''total_pixels'', VInt 5000)] \<and>
   get_image_properties example_floats example_env ''flat.png'' = Inl ZeroDivisionError \<and>
   extract_all_features example_floats example_env ''flat.png'' = Inl ZeroDivisionError"
proof -
  have a: "cv2_imread example_env ''a.png'' = Some example_image \<and>
      shape example_image = 50 # 100 # [3] \<and> (50::nat) \<noteq> 0 \<and>
      os_path_getsize example_env ''a.png'' = Inr 2048 \<and>
      int_truediv example_floats (int 2048) 1024 = Some (Finite 2) \<and>
      int_truediv example_floats (int 100) (int 50) = Some (Finite 2)"
    by (simp add: example_env_def example_image_def example_truediv)
  have b: "cv2_imread example_env ''flat.png'' = Some flat_image \<and>
      shape flat_image = 0 # 100 # [3]"
    by (simp add: example_env_def flat_image_def)
  have c: "os_path_getsize example_env ''flat.png'' = Inr 2048 \<and>
      int_truediv example_floats (int 2048) 1024 = Some (Finite 2)"
    by (simp add: example_env_def example_truediv)
  from aspect_ratio_or_failure [of example_env "''a.png''" example_image 50 100 "[3]" 2048
      example_floats "Finite 2" "Finite 2"] a
  obtain props where "get_image_properties example_floats example_env ''a.png'' = Inr props"
    by blast
  with get_image_properties_ok [of example_env "''a.png''" example_image 50 100 "[3]" 2048
      example_floats "Finite 2" "Finite 2"] a
  have 1: "get_image_properties example_floats example_env ''a.png'' =
     Inr [(''width'', VInt 100), (''height'', VInt 50), (''channels'', VInt 3),
          (''file_size_kb'', VFloat (Finite 2)), (''aspect_ratio'', VFloat (Finite 2)),
          (''total_pixels'', VInt 5000)]"
    by (simp add: properties_of_def example_round)
  from aspect_ratio_or_failure [of example_env "''flat.png''" flat_image _ 100 "[3]" 2048
      example_floats "Finite 2"] b c
  have 2: "get_image_properties example_floats example_env ''flat.png'' = Inl ZeroDivisionError \<and>
   extract_all_features example_floats example_env ''flat.png'' = Inl ZeroDivisionError"
    by blast
  from 1 2 show ?thesis by blast
qed

lemma extract_all_features_InrD:
  assumes "extract_all_features fo env p = Inr f"
  shows "\<exists>t img h w rest kb q b e colors.
     extract_text env p = Inr t \<and>
     cv2_imread env p = Some img \<and> shape img = h # w # rest \<and> h \<noteq> 0 \<and>
     calculate_brightness fo env p = Inr b \<and> detect_edges env p = Inr e \<and>
     detect_dominant_colors env p 3 = Inr colors \<and>
     f = add_colors (uint8_repr env) (base_features p t (properties_of fo h w rest kb q) b e)
           0 colors"
proof -
  from extract_text_Inr obtain t where t: "extract_text env p = Inr t" by blast
  from assms t obtain props where pr: "get_image_properties fo env p = Inr props"
    by (cases "get_image_properties fo env p")
       (auto simp: extract_all_features_def bind_err_def Let_def)
  from assms t pr obtain b where b: "calculate_brightness fo env p = Inr b"
    by (cases "calculate_brightness fo env p")
       (auto simp: extract_all_features_def bind_err_def Let_def)
  from assms t pr b obtain e where e: "detect_edges env p = Inr e"
    by (cases "detect_edges env p")
       (auto simp: extract_all_features_def bind_err_def Let_def)
  from assms t pr b e obtain colors where c: "detect_dominant_colors env p 3 = Inr colors"
    by (cases "detect_dominant_colors env p 3")
       (auto simp: extract_all_features_def bind_err_def Let_def)
  from get_image_properties_InrD [OF pr] obtain img h w rest kb q where
    g: "cv2_imread env p = Some img" "shape img = h # w # rest" "h \<noteq> 0"
       "props = properties_of fo h w rest kb q"
    by blast
  from assms t pr b e c g(4)
  have "f = add_colors (uint8_repr env) (base_features p t (properties_of fo h w rest kb q) b e)
           0 colors"
    by (simp add: extract_all_features_def bind_err_def Let_def base_features_def
        properties_of_def dict_update_def dict_items_def)
  with t g b e c show ?thesis by blast
qed

lemma map_of_add_colors_other:
  "take 15 k \<noteq> ''dominant_color_'' \<Longrightarrow> map_of (add_colors rp d i cs) k = map_of d k"
proof (induction cs arbitrary: d i)
  case Nil
  then show ?case by simp
next
  case (Cons c cs)
  from Cons.prems have "k \<noteq> ''dominant_color_'' @ dec (i + 1)" by auto
  with Cons show ?case by (simp add: map_of_dict_set)
qed

text \<open>
  Claim C7. When \<open>extract_all_features\<close> returns a record for an image that \<open>cv2.imread\<close>
  decodes to an array of height \<open>h\<close> and width \<open>w\<close> with \<open>w\<close> greater than 0 (a decoded image
  has no empty dimension), the record holds \<open>w\<close> under \<open>width\<close>, \<open>h\<close> under \<open>height\<close> and
  \<open>w * h\<close> under \<open>total_pixels\<close>, and \<open>h\<close> is greater than 0 as well.
\<close>

theorem record_dimensions:
  assumes "extract_all_features fo env p = Inr f"
    and "cv2_imread env p = Some img" and "shape img = h # w # rest" and "0 < w"
  shows "map_of f ''width'' = Some (VInt (int w)) \<and>
     map_of f ''height'' = Some (VInt (int h)) \<and>
     0 < int w \<and> 0 < int h \<and>
     map_of f ''total_pixels'' = Some (VInt (int w * int h))"
proof -
  from extract_all_features_InrD [OF assms(1)] assms(2,3) obtain t kb q b e colors where
    h: "h \<noteq> 0"
    and f: "f = add_colors (uint8_repr env)
                  (base_features p t (properties_of fo h w rest kb q) b e) 0 colors"
    by auto
  have 1: "map_of f ''width'' = Some (VInt (int w))"
    unfolding f by (simp add: map_of_add_colors_other base_features_def properties_of_def)
  have 2: "map_of f ''height'' = Some (VInt (int h))"
    unfolding f by (simp add: map_of_add_colors_other base_features_def properties_of_def)
  have 3: "map_of f ''total_pixels'' = Some (VInt (int w * int h))"
    unfolding f by (simp add: map_of_add_colors_other base_features_def properties_of_def)
  from 1 2 3 h assms(4) show ?thesis by simp
qed

lemma floor_example: "\<lfloor>567 / 10 :: rat\<rfloor> = 56"
  by (simp add: floor_eq_iff)

lemma np_uint8_example: "np_uint8 12 = 12" "np_uint8 34 = 34" "np_uint8 (567 / 10) = 56"
  by (simp_all add: np_uint8_def floor_example)

lemma example_parts:
  "extract_text example_env ''a.png'' = Inr ''hello''"
  "get_image_properties example_floats example_env ''a.png'' =
      Inr (properties_of example_floats 50 100 [3] (Finite 2) (Finite 2))"
  "calculate_brightness example_floats example_env ''a.png'' = Inr (VFloat (Finite 10))"
  "detect_edges example_env ''a.png'' = Inr (VInt 7)"
  "detect_dominant_colors example_env ''a.png'' 3 =
      Inr [[12, 34, 56], [12, 34, 56], [12, 34, 56]]"
proof -
  show "extract_text example_env ''a.png'' = Inr ''hello''"
    by (simp add: extract_text_def try_ocr_def example_env_def py_strip_hello)
  show "get_image_properties example_floats example_env ''a.png'' =
      Inr (properties_of example_floats 50 100 [3] (Finite 2) (Finite 2))"
    by (rule get_image_properties_ok [where img = example_image and file_size = 2048])
       (simp_all add: example_env_def example_image_def example_truediv)
  show "calculate_brightness example_floats example_env ''a.png'' = Inr (VFloat (Finite 10))"
    by (simp add: calculate_brightness_def load_image_def bind_err_def lib_call_def
        example_env_def example_round)
  show "detect_edges example_env ''a.png'' = Inr (VInt 7)"
    by (simp add: detect_edges_def load_image_def bind_err_def lib_call_def example_env_def)
  have three: "replicate 3 x = [x, x, x]" for x :: "rat list"
    by (simp add: numeral_3_eq_3)
  show "detect_dominant_colors example_env ''a.png'' 3 =
      Inr [[12, 34, 56], [12, 34, 56], [12, 34, 56]]"
    by (simp add: detect_dominant_colors_def load_image_def bind_err_def lib_call_def
        example_env_def three np_uint8_example)
qed



lemma example_extract:
  "extract_all_features example_floats example_env ''a.png'' = Inr example_features"
  by (simp add: extract_all_features_def example_parts bind_err_def Let_def dict_update_def
        dict_items_def properties_of_def example_round example_features_def dec_small
        dec_example tuple_str_def)
     (simp add: example_env_def dec_example)

theorem record_dimensions_witness:
  "extract_all_features example_floats example_env ''a.png'' = Inr example_features \<and>
   map_of example_features ''width'' = Some (VInt 100) \<and>
   map_of example_features ''height'' = Some (VInt 50) \<and>
   map_of example_features ''total_pixels'' = Some (VInt (100 * 50))"
proof -
  have i: "cv2_imread example_env ''a.png'' = Some example_image"
    by (simp add: example_env_def)
  have s: "shape example_image = 50 # 100 # [3]" by (simp add: example_image_def)
  from record_dimensions [OF example_extract i s] example_extract
  show ?thesis by simp
qed









end
